theory Spec2Isabelle
  imports Complex_Main
begin

section \<open>Resilient AWS client manager (backend/utils/aws\_clients.py)\<close>

text \<open>
  A shallow embedding of \<^verbatim>\<open>src/backend/utils/aws_clients.py\<close>: the circuit breaker, the
  connection pool, the retry decorator, the service health monitor and the client manager
  that composes them. Python objects become records, mutation becomes state passing, a
  raised exception becomes the \<open>Inl\<close> branch of a sum, and the outside world (the wall
  clock, boto3) becomes an explicit parameter.
\<close>

subsection \<open>Exceptions\<close>

text \<open>
  The exception classes the module names or raises. \<open>Exception\<close> is the root;
  \<open>NoCredentialsError\<close> derives from \<open>BotoCoreError\<close> in botocore; \<open>ValueError\<close> is what
  \<^verbatim>\<open>time.sleep\<close> raises on a negative argument, \<open>OverflowError\<close> what it raises
  on one too large and what float arithmetic raises out of range, and
  \<open>ZeroDivisionError\<close> what a division by zero raises. An exception value carries its class and its message
  (\<^verbatim>\<open>str(e)\<close>).
\<close>

datatype exn_class =
  Exception | ClientError | BotoCoreError | NoCredentialsError | ValueError | ZeroDivisionError
| OverflowError

datatype exn = Exn (exn_cls: exn_class) (exn_msg: string)

fun issubclass :: "exn_class \<Rightarrow> exn_class \<Rightarrow> bool" where
  "issubclass c Exception = True"
| "issubclass NoCredentialsError BotoCoreError = True"
| "issubclass c d = (c = d)"

text \<open>\<^verbatim>\<open>except classes as e\<close>: the exception is an instance of one of the classes.\<close>

definition isinstance :: "exn \<Rightarrow> exn_class list \<Rightarrow> bool" where
  "isinstance e classes = list_ex (issubclass (exn_cls e)) classes"

subsection \<open>Circuit breaker\<close>

text \<open>
  \<^verbatim>\<open>datetime.now()\<close> is a number of microseconds; \<^verbatim>\<open>timedelta(seconds=r)\<close> is
  \<open>r * 1000000\<close> of them. Every operation that reads the clock takes the reading as
  its argument \<open>now\<close>.
\<close>

type_synonym timestamp = int

datatype CircuitBreakerState = CLOSED | OPEN | HALF_OPEN

record CircuitBreaker =
  failure_threshold :: int
  recovery_timeout :: int
  expected_exception :: exn_class
  failure_count :: int
  last_failure_time :: "timestamp option"
  state :: CircuitBreakerState

text \<open>\<^verbatim>\<open>CircuitBreaker.__init__\<close>\<close>

definition new_breaker :: "int \<Rightarrow> int \<Rightarrow> CircuitBreaker" where
  "new_breaker threshold timeout =
     \<lparr>failure_threshold = threshold, recovery_timeout = timeout,
      expected_exception = Exception, failure_count = 0,
      last_failure_time = None, state = CLOSED\<rparr>"

definition timedelta_seconds :: "int \<Rightarrow> int" where
  "timedelta_seconds r = r * 1000000"

text \<open>\<^verbatim>\<open>CircuitBreaker._should_attempt_reset\<close>\<close>

definition should_attempt_reset :: "timestamp \<Rightarrow> CircuitBreaker \<Rightarrow> bool" where
  "should_attempt_reset now b =
     (case last_failure_time b of
        None \<Rightarrow> False
      | Some t \<Rightarrow> now - t \<ge> timedelta_seconds (recovery_timeout b))"

text \<open>\<^verbatim>\<open>CircuitBreaker._on_success\<close>\<close>

definition on_success :: "CircuitBreaker \<Rightarrow> CircuitBreaker" where
  "on_success b = b\<lparr>failure_count := 0, state := CLOSED\<rparr>"

text \<open>\<^verbatim>\<open>CircuitBreaker._on_failure\<close>\<close>

definition on_failure :: "timestamp \<Rightarrow> CircuitBreaker \<Rightarrow> CircuitBreaker" where
  "on_failure now b =
     (let b' = b\<lparr>failure_count := failure_count b + 1, last_failure_time := Some now\<rparr>
      in if failure_count b' \<ge> failure_threshold b' then b'\<lparr>state := OPEN\<rparr> else b')"

text \<open>
  \<^verbatim>\<open>CircuitBreaker.__call__\<close>: the decorator that guards a call \<open>func\<close> on a state
  \<open>'s\<close>. It is the one place of the module that consults \<open>should_attempt_reset\<close>.
  An exception that is not an instance of \<open>expected_exception\<close> passes through without
  being counted.
\<close>

definition breaker_call ::
  "timestamp \<Rightarrow> ('s \<Rightarrow> (exn + 'a) \<times> 's) \<Rightarrow> CircuitBreaker \<Rightarrow> 's
     \<Rightarrow> (exn + 'a) \<times> CircuitBreaker \<times> 's" where
  "breaker_call now func b s =
     (if state b = OPEN \<and> \<not> should_attempt_reset now b
      then (Inl (Exn Exception ''Circuit breaker OPEN''), b, s)
      else
        let b1 = (if state b = OPEN then b\<lparr>state := HALF_OPEN\<rparr> else b)
        in case func s of
             (Inr result, s') \<Rightarrow> (Inr result, on_success b1, s')
           | (Inl e, s') \<Rightarrow>
               if isinstance e [expected_exception b1]
               then (Inl e, on_failure now b1, s')
               else (Inl e, b1, s'))"

text \<open>A run of recorded failures, one clock reading each.\<close>

fun record_failures :: "timestamp list \<Rightarrow> CircuitBreaker \<Rightarrow> CircuitBreaker" where
  "record_failures [] b = b"
| "record_failures (t # ts) b = record_failures ts (on_failure t b)"

subsection \<open>Connection pool\<close>

record ConnectionPool =
  max_connections :: int
  connection_timeout :: int
  read_timeout :: int
  active_connections :: int

text \<open>\<^verbatim>\<open>ConnectionPool.__init__\<close>\<close>

definition new_pool :: "int \<Rightarrow> int \<Rightarrow> int \<Rightarrow> ConnectionPool" where
  "new_pool m ct rt =
     \<lparr>max_connections = m, connection_timeout = ct, read_timeout = rt,
      active_connections = 0\<rparr>"

definition pool_exhausted :: exn where
  "pool_exhausted = Exn Exception ''Connection pool exhausted''"

text \<open>
  \<^verbatim>\<open>ConnectionPool.acquire_connection\<close>: the body runs under the pool's lock, so
  it is one atomic step; it has no loop and no wait. The pool after the call is returned on
  both paths.
\<close>

definition acquire_connection :: "ConnectionPool \<Rightarrow> (exn + unit) \<times> ConnectionPool" where
  "acquire_connection p =
     (if active_connections p \<ge> max_connections p
      then (Inl pool_exhausted, p)
      else (Inr (), p\<lparr>active_connections := active_connections p + 1\<rparr>))"

text \<open>\<^verbatim>\<open>ConnectionPool.release_connection\<close>\<close>

definition release_connection :: "ConnectionPool \<Rightarrow> ConnectionPool" where
  "release_connection p =
     (if active_connections p > 0
      then p\<lparr>active_connections := active_connections p - 1\<rparr>
      else p)"

text \<open>
  A caller's sequence of pool calls. An acquire that raises leaves the caller with the
  pool as the call left it.
\<close>

datatype pool_call = Acquire | Release

fun pool_step :: "ConnectionPool \<Rightarrow> pool_call \<Rightarrow> ConnectionPool" where
  "pool_step p Acquire = snd (acquire_connection p)"
| "pool_step p Release = release_connection p"

definition pool_run :: "pool_call list \<Rightarrow> ConnectionPool \<Rightarrow> ConnectionPool" where
  "pool_run cs p = foldl pool_step p cs"

definition pool_invariant :: "ConnectionPool \<Rightarrow> bool" where
  "pool_invariant p \<longleftrightarrow> 0 \<le> active_connections p \<and> active_connections p \<le> max_connections p"


subsection \<open>Retry decorator\<close>

text \<open>
  \<^verbatim>\<open>base_wait_time = delay * (backoff ** (retries - 1))\<close>, with \<open>retries \<ge> 1\<close>
  where it is computed.
\<close>

definition base_wait_time :: "rat \<Rightarrow> rat \<Rightarrow> nat \<Rightarrow> rat" where
  "base_wait_time delay backoff retries = delay * backoff ^ (retries - 1)"

text \<open>
  \<^verbatim>\<open>jitter = base_wait_time * 0.1 * (0.5 - time.time() % 1)\<close>. The argument \<open>t\<close>
  is the reading of \<^verbatim>\<open>time.time()\<close>; \<open>t % 1\<close> is its fractional part. The
  arithmetic is exact (rationals), where Python rounds to a double.
\<close>

definition jitter :: "rat \<Rightarrow> rat \<Rightarrow> rat" where
  "jitter base t = base * (1 / 10) * (1 / 2 - frac t)"

definition wait_time :: "rat \<Rightarrow> rat \<Rightarrow> nat \<Rightarrow> rat \<Rightarrow> rat" where
  "wait_time delay backoff retries t =
     base_wait_time delay backoff retries + jitter (base_wait_time delay backoff retries) t"

text \<open>
  What one call of the decorated function did, kept beside its result: the number of
  times it invoked \<open>func\<close>, the exceptions \<open>func\<close> raised (oldest first), and the
  sleeps it made, each as (\<open>base_wait_time\<close>, \<open>wait_time\<close>). The log is not a
  Python object; it records the calls of \<open>func\<close> and of \<^verbatim>\<open>time.sleep\<close>.
\<close>

record retry_log =
  calls :: nat
  raised :: "exn list"
  sleeps :: "(rat \<times> rat) list"

definition empty_log :: retry_log where
  "empty_log = \<lparr>calls = 0, raised = [], sleeps = []\<rparr>"

text \<open>
  The two limits of the Python runtime the wrapper meets. A float is at most
  \<open>float_max\<close>: a power beyond it raises \<open>OverflowError\<close> (\<^verbatim>\<open>backoff ** n\<close> for
  a float, or the conversion of the exact integer power to a float). \<^verbatim>\<open>time.sleep\<close>
  keeps its argument as a signed 64-bit number of nanoseconds: it raises
  \<open>ValueError\<close> for a negative time and \<open>OverflowError\<close> for a time above
  \<open>sleep_max\<close> seconds (about 9.2e9), and sleeps otherwise. \<open>sleep w\<close> is the exception
  \<^verbatim>\<open>time.sleep(w)\<close> raises, if any. Rounding to a double is not modelled.
\<close>

definition float_max :: rat where
  "float_max = (2 - 1 / 2 ^ 52) * 2 ^ 1023"

definition sleep_max :: rat where
  "sleep_max = 2 ^ 63 / 10 ^ 9"

definition power_error :: exn where
  "power_error = Exn OverflowError ''Numerical result out of range''"

definition sleep :: "rat \<Rightarrow> exn option" where
  "sleep w =
     (if w < 0 then Some (Exn ValueError ''sleep length must be non-negative'')
      else if w > sleep_max
        then Some (Exn OverflowError ''timestamp too large to convert to C _PyTime_t'')
      else None)"

text \<open>
  The \<^verbatim>\<open>while retries < max_retries\<close> loop of \<^verbatim>\<open>retry_on_failure\<close>'s wrapper.
  \<open>func\<close> runs on a state \<open>'s\<close> and returns a value or raises; \<open>time_time k\<close> is
  the reading of \<^verbatim>\<open>time.time()\<close> taken before the \<open>k\<close>-th sleep (from 0). The
  first handler catches instances of \<open>exceptions\<close>, the second every other
  \<open>Exception\<close>; an exception raised inside a handler (the re-raise, the power leaving
  the float range, or \<^verbatim>\<open>time.sleep\<close> refusing its argument) leaves the loop.
  Falling out of the loop raises \<open>last_exception\<close> if there is one and returns
  \<open>None\<close> otherwise.
\<close>

function retry_loop ::
  "int \<Rightarrow> rat \<Rightarrow> rat \<Rightarrow> exn_class list \<Rightarrow> (nat \<Rightarrow> rat) \<Rightarrow> ('s \<Rightarrow> (exn + 'a) \<times> 's)
     \<Rightarrow> nat \<Rightarrow> exn option \<Rightarrow> retry_log \<Rightarrow> 's \<Rightarrow> (exn + 'a option) \<times> 's \<times> retry_log" where
  "retry_loop max_retries delay backoff exceptions time_time func retries last_exception lg s =
     (if int retries < max_retries then
        (case func s of
           (Inr result, s') \<Rightarrow> (Inr (Some result), s', lg\<lparr>calls := calls lg + 1\<rparr>)
         | (Inl e, s') \<Rightarrow>
             let lg' = lg\<lparr>calls := calls lg + 1, raised := raised lg @ [e]\<rparr> in
             if isinstance e exceptions then
               if int (retries + 1) \<ge> max_retries then (Inl e, s', lg')
               else if \<bar>backoff ^ retries\<bar> > float_max then (Inl power_error, s', lg')
               else
                 let t = time_time (length (sleeps lg));
                     w = wait_time delay backoff (retries + 1) t
                 in case sleep w of
                      Some error \<Rightarrow> (Inl error, s', lg')
                    | None \<Rightarrow>
                        retry_loop max_retries delay backoff exceptions time_time func
                          (retries + 1) (Some e)
                          (lg'\<lparr>sleeps := sleeps lg
                                    @ [(base_wait_time delay backoff (retries + 1), w)]\<rparr>) s'
             else (Inl e, s', lg'))
      else
        (case last_exception of
           Some e \<Rightarrow> (Inl e, s, lg)
         | None \<Rightarrow> (Inr None, s, lg)))"
  by pat_completeness auto
termination
  by (relation "measure (\<lambda>(m, d, b, ex, tt, f, r, le, lg, s). nat (m - int r))") auto

declare retry_loop.simps [simp del]

text \<open>
  \<^verbatim>\<open>retry_on_failure(max_retries, delay, backoff, exceptions)(func)\<close>: the wrapper
  starts the loop with \<open>retries = 0\<close> and \<open>last_exception = None\<close>.
\<close>

definition retry_on_failure ::
  "int \<Rightarrow> rat \<Rightarrow> rat \<Rightarrow> exn_class list \<Rightarrow> (nat \<Rightarrow> rat) \<Rightarrow> ('s \<Rightarrow> (exn + 'a) \<times> 's)
     \<Rightarrow> 's \<Rightarrow> (exn + 'a option) \<times> 's \<times> retry_log" where
  "retry_on_failure max_retries delay backoff exceptions time_time func s =
     retry_loop max_retries delay backoff exceptions time_time func 0 None empty_log s"

text \<open>The decorator's default \<^verbatim>\<open>exceptions=(ClientError, BotoCoreError)\<close>.\<close>

definition default_exceptions :: "exn_class list" where
  "default_exceptions = [ClientError, BotoCoreError]"

subsection \<open>Service health monitor\<close>

text \<open>
  One entry of \<^verbatim>\<open>_service_health\<close>. The dictionary key \<^verbatim>\<open>'failure_count'\<close> is the
  field \<open>health_failure_count\<close> (the breaker has a \<open>failure_count\<close> of its own);
  \<^verbatim>\<open>'last_error'\<close> is absent until the first failure.
\<close>

record HealthRecord =
  success_count :: int
  health_failure_count :: int
  last_success :: "timestamp option"
  last_failure :: "timestamp option"
  consecutive_failures :: int
  last_error :: "string option"

type_synonym ServiceHealthMonitor = "string \<rightharpoonup> HealthRecord"

definition new_health_record :: HealthRecord where
  "new_health_record =
     \<lparr>success_count = 0, health_failure_count = 0, last_success = None,
      last_failure = None, consecutive_failures = 0, last_error = None\<rparr>"

definition health_entry :: "ServiceHealthMonitor \<Rightarrow> string \<Rightarrow> HealthRecord" where
  "health_entry m service_name =
     (case m service_name of None \<Rightarrow> new_health_record | Some h \<Rightarrow> h)"

text \<open>\<^verbatim>\<open>ServiceHealthMonitor.record_success\<close>\<close>

definition record_success :: "timestamp \<Rightarrow> string \<Rightarrow> ServiceHealthMonitor \<Rightarrow> ServiceHealthMonitor" where
  "record_success now service_name m =
     (let h = health_entry m service_name
      in m(service_name \<mapsto>
             h\<lparr>success_count := success_count h + 1, last_success := Some now,
               consecutive_failures := 0\<rparr>))"

text \<open>\<^verbatim>\<open>ServiceHealthMonitor.record_failure\<close>\<close>

definition record_failure ::
  "timestamp \<Rightarrow> string \<Rightarrow> exn \<Rightarrow> ServiceHealthMonitor \<Rightarrow> ServiceHealthMonitor" where
  "record_failure now service_name error m =
     (let h = health_entry m service_name
      in m(service_name \<mapsto>
             h\<lparr>health_failure_count := health_failure_count h + 1, last_failure := Some now,
               consecutive_failures := consecutive_failures h + 1,
               last_error := Some (exn_msg error)\<rparr>))"

text \<open>
  \<^verbatim>\<open>ServiceHealthMonitor.get_health_status\<close>: the two short dictionaries are
  \<open>NoData message\<close> (status \<open>unknown\<close>), the full one is \<open>Health\<close> with status,
  success rate, total calls, consecutive failures, last success, last failure and last
  error.
\<close>

datatype health_report =
  NoData string
| Health string rat int int "timestamp option" "timestamp option" "string option"

definition get_health_status :: "string \<Rightarrow> ServiceHealthMonitor \<Rightarrow> health_report" where
  "get_health_status service_name m =
     (case m service_name of
        None \<Rightarrow> NoData ''No health data available''
      | Some h \<Rightarrow>
          let total_calls = success_count h + health_failure_count h in
          if total_calls = 0 then NoData ''No calls recorded''
          else
            let success_rate = rat_of_int (success_count h) / rat_of_int total_calls;
                status = (if consecutive_failures h \<ge> 5 then ''critical''
                          else if consecutive_failures h \<ge> 3 then ''degraded''
                          else if success_rate < 8 / 10 then ''warning''
                          else ''healthy'')
            in Health status success_rate total_calls (consecutive_failures h)
                 (last_success h) (last_failure h) (last_error h))"

fun report_status :: "health_report \<Rightarrow> string" where
  "report_status (NoData message) = ''unknown''"
| "report_status (Health status rate n consecutive ls lf le) = status"

subsection \<open>Client manager\<close>

text \<open>
  A client handle is the identity of the object boto3 returned. The outside world is
  \<open>boto service_type k\<close>: what creating a session and a client (for DynamoDB, a
  resource, and listing one table) of that service type does at the \<open>k\<close>-th construction
  attempt of the process, counted from 0: it returns a handle or raises.
\<close>

type_synonym handle = nat

type_synonym boto3 = "string \<Rightarrow> nat \<Rightarrow> exn + handle"

text \<open>
  What the manager did to the pool and to boto3, oldest first. The trace is not a Python
  object: it makes the construction attempts and the pool calls of one manager call
  visible in the state after it.
\<close>

datatype event = PoolAcquired | PoolReleased | Construct string

fun is_construct :: "event \<Rightarrow> bool" where
  "is_construct (Construct service_type) = True"
| "is_construct e = False"

text \<open>
  The manager. \<open>aws_config\<close> holds, per service name, the value of
  \<^verbatim>\<open>aws_config['services'][name]['enabled']\<close> where the file gives one; \<open>clients\<close> is
  the class attribute \<^verbatim>\<open>_clients\<close>, whose values can be \<open>None\<close>.
\<close>

record AWSClientManager =
  aws_config :: "string \<rightharpoonup> bool"
  region :: string
  connection_pool :: ConnectionPool
  health_monitor :: ServiceHealthMonitor
  circuit_breakers :: "string \<rightharpoonup> CircuitBreaker"
  clients :: "string \<rightharpoonup> handle option"
  trace :: "event list"

definition constructions :: "AWSClientManager \<Rightarrow> nat" where
  "constructions st = length (filter is_construct (trace st))"

text \<open>The breakers \<^verbatim>\<open>AWSClientManager.__init__\<close> creates.\<close>

definition initial_circuit_breakers :: "string \<rightharpoonup> CircuitBreaker" where
  "initial_circuit_breakers =
     map_of
       [(''bedrock'', new_breaker 5 60), (''dynamodb'', new_breaker 3 30),
        (''textract'', new_breaker 5 60), (''cognito'', new_breaker 3 30),
        (''ses'', new_breaker 5 60), (''sns'', new_breaker 5 60),
        (''sagemaker'', new_breaker 3 120), (''comprehend_medical'', new_breaker 5 60),
        (''kms'', new_breaker 3 30), (''transcribe'', new_breaker 5 60),
        (''polly'', new_breaker 5 60), (''stepfunctions'', new_breaker 3 90),
        (''s3'', new_breaker 3 30)]"

text \<open>
  \<^verbatim>\<open>AWSClientManager.__init__\<close>, from the loaded configuration: the enabled flags and
  the pool's three settings.
\<close>

definition new_manager :: "(string \<rightharpoonup> bool) \<Rightarrow> int \<Rightarrow> int \<Rightarrow> int \<Rightarrow> AWSClientManager" where
  "new_manager config max_pool_connections connect_timeout read_timeout' =
     \<lparr>aws_config = config, region = ''ap-south-1'',
      connection_pool = new_pool max_pool_connections connect_timeout read_timeout',
      health_monitor = Map.empty, circuit_breakers = initial_circuit_breakers,
      clients = Map.empty, trace = []\<rparr>"

text \<open>\<^verbatim>\<open>AWSClientManager._is_service_enabled\<close>\<close>

definition is_service_enabled :: "AWSClientManager \<Rightarrow> string \<Rightarrow> bool" where
  "is_service_enabled st service_name =
     (case aws_config st service_name of None \<Rightarrow> False | Some enabled \<Rightarrow> enabled)"

text \<open>
  \<^verbatim>\<open>circuit_breaker and circuit_breaker.state == CircuitBreakerState.OPEN\<close>, for
  \<^verbatim>\<open>circuit_breaker = self.circuit_breakers.get(service_name)\<close>.
\<close>

definition breaker_open :: "AWSClientManager \<Rightarrow> string \<Rightarrow> bool" where
  "breaker_open st service_name =
     (case circuit_breakers st service_name of None \<Rightarrow> False | Some b \<Rightarrow> state b = OPEN)"

definition update_breaker ::
  "(CircuitBreaker \<Rightarrow> CircuitBreaker) \<Rightarrow> string \<Rightarrow> (string \<rightharpoonup> CircuitBreaker)
     \<Rightarrow> (string \<rightharpoonup> CircuitBreaker)" where
  "update_breaker f service_name bs =
     (case bs service_name of None \<Rightarrow> bs | Some b \<Rightarrow> bs(service_name \<mapsto> f b))"

text \<open>
  The success path: \<^verbatim>\<open>health_monitor.record_success\<close>, then the breaker's
  \<^verbatim>\<open>_on_success\<close> if the service has a breaker.
\<close>

definition client_success :: "timestamp \<Rightarrow> string \<Rightarrow> AWSClientManager \<Rightarrow> AWSClientManager" where
  "client_success now service_name st =
     st\<lparr>health_monitor := record_success now service_name (health_monitor st),
        circuit_breakers := update_breaker on_success service_name (circuit_breakers st)\<rparr>"

text \<open>
  The handler \<^verbatim>\<open>except Exception as e\<close>: \<^verbatim>\<open>health_monitor.record_failure\<close>, then
  the breaker's \<^verbatim>\<open>_on_failure\<close> if the service has a breaker.
\<close>

definition client_failure ::
  "timestamp \<Rightarrow> string \<Rightarrow> exn \<Rightarrow> AWSClientManager \<Rightarrow> AWSClientManager" where
  "client_failure now service_name e st =
     st\<lparr>health_monitor := record_failure now service_name e (health_monitor st),
        circuit_breakers := update_breaker (on_failure now) service_name (circuit_breakers st)\<rparr>"

text \<open>The \<^verbatim>\<open>finally\<close> clause: \<^verbatim>\<open>connection_pool.release_connection()\<close>.\<close>

definition release :: "AWSClientManager \<Rightarrow> AWSClientManager" where
  "release st =
     st\<lparr>connection_pool := release_connection (connection_pool st),
        trace := trace st @ [PoolReleased]\<rparr>"

text \<open>
  \<^verbatim>\<open>AWSClientManager._create_client_with_monitoring\<close>. The result is the client or
  \<open>None\<close>. An exhausted pool raises inside the outer \<^verbatim>\<open>try\<close>, so it is recorded as a
  failure of the service; a failed construction runs the \<^verbatim>\<open>finally\<close> clause first and
  the handler after it. The clock readings of one call are one instant \<open>now\<close>.
\<close>

definition create_client_with_monitoring ::
  "boto3 \<Rightarrow> timestamp \<Rightarrow> string \<Rightarrow> string \<Rightarrow> AWSClientManager
     \<Rightarrow> handle option \<times> AWSClientManager" where
  "create_client_with_monitoring boto now service_name service_type st =
     (if \<not> is_service_enabled st service_name then (None, st)
      else if breaker_open st service_name then (None, st)
      else
        case acquire_connection (connection_pool st) of
          (Inl e, p) \<Rightarrow> (None, client_failure now service_name e (st\<lparr>connection_pool := p\<rparr>))
        | (Inr u, p) \<Rightarrow>
            let st1 = st\<lparr>connection_pool := p, trace := trace st @ [PoolAcquired]\<rparr>;
                st2 = st1\<lparr>trace := trace st1 @ [Construct service_type]\<rparr>
            in case boto service_type (constructions st1) of
                 Inr client \<Rightarrow> (Some client, release (client_success now service_name st2))
               | Inl e \<Rightarrow> (None, client_failure now service_name e (release st2)))"

text \<open>
  The body shared by the accessors that go through
  \<^verbatim>\<open>_create_client_with_monitoring\<close>:
  \<^verbatim>\<open>if name not in self._clients: self._clients[name] = self._create_client_with_monitoring(...)\<close>,
  then \<^verbatim>\<open>return self._clients[name]\<close>. The region-specific \<^verbatim>\<open>config_override\<close> of
  the Cognito, SES and SNS accessors only reaches boto3.
\<close>

definition cached_client ::
  "boto3 \<Rightarrow> timestamp \<Rightarrow> string \<Rightarrow> string \<Rightarrow> AWSClientManager
     \<Rightarrow> handle option \<times> AWSClientManager" where
  "cached_client boto now service_name service_type st =
     (case clients st service_name of
        Some client \<Rightarrow> (client, st)
      | None \<Rightarrow>
          (case create_client_with_monitoring boto now service_name service_type st of
             (client, st') \<Rightarrow> (client, st'\<lparr>clients := (clients st')(service_name \<mapsto> client)\<rparr>)))"

text \<open>
  The body of \<^verbatim>\<open>get_dynamodb_resource\<close>, which repeats the steps inline: a disabled
  service and an open breaker return \<open>None\<close> without an entry in the cache, a success
  stores the resource, and the handler stores \<open>None\<close>.
\<close>

definition dynamodb_resource ::
  "boto3 \<Rightarrow> timestamp \<Rightarrow> AWSClientManager \<Rightarrow> handle option \<times> AWSClientManager" where
  "dynamodb_resource boto now st =
     (case clients st ''dynamodb'' of
        Some resource \<Rightarrow> (resource, st)
      | None \<Rightarrow>
          if \<not> is_service_enabled st ''dynamodb'' then (None, st)
          else if breaker_open st ''dynamodb'' then (None, st)
          else
            case acquire_connection (connection_pool st) of
              (Inl e, p) \<Rightarrow>
                (let st' = client_failure now ''dynamodb'' e (st\<lparr>connection_pool := p\<rparr>)
                 in (None, st'\<lparr>clients := (clients st')(''dynamodb'' \<mapsto> None)\<rparr>))
            | (Inr u, p) \<Rightarrow>
                let st1 = st\<lparr>connection_pool := p, trace := trace st @ [PoolAcquired]\<rparr>;
                    st2 = st1\<lparr>trace := trace st1 @ [Construct ''dynamodb'']\<rparr>
                in case boto ''dynamodb'' (constructions st1) of
                     Inr resource \<Rightarrow>
                       (let st3 = client_success now ''dynamodb'' st2
                        in (Some resource,
                            release (st3\<lparr>clients := (clients st3)(''dynamodb'' \<mapsto> Some resource)\<rparr>)))
                   | Inl e \<Rightarrow>
                       (let st3 = client_failure now ''dynamodb'' e (release st2)
                        in (None, st3\<lparr>clients := (clients st3)(''dynamodb'' \<mapsto> None)\<rparr>)))"

text \<open>
  An accessor is its body under \<^verbatim>\<open>@retry_on_failure(max_retries=3, delay=..., backoff=2)\<close>.
  Both bodies end every path with a \<^verbatim>\<open>return\<close>: their handler catches every
  \<open>Exception\<close>.
\<close>

type_synonym accessor_result = "(exn + handle option option) \<times> AWSClientManager \<times> retry_log"

definition accessor ::
  "rat \<Rightarrow> (AWSClientManager \<Rightarrow> handle option \<times> AWSClientManager) \<Rightarrow> (nat \<Rightarrow> rat)
     \<Rightarrow> AWSClientManager \<Rightarrow> accessor_result" where
  "accessor delay body time_time st =
     retry_on_failure 3 delay 2 default_exceptions time_time
       (\<lambda>s. case body s of (client, s') \<Rightarrow> (Inr client, s')) st"

definition get_bedrock_client :: "boto3 \<Rightarrow> timestamp \<Rightarrow> (nat \<Rightarrow> rat) \<Rightarrow> AWSClientManager \<Rightarrow> accessor_result" where
  "get_bedrock_client boto now = accessor 1 (cached_client boto now ''bedrock'' ''bedrock-runtime'')"

definition get_dynamodb_resource :: "boto3 \<Rightarrow> timestamp \<Rightarrow> (nat \<Rightarrow> rat) \<Rightarrow> AWSClientManager \<Rightarrow> accessor_result" where
  "get_dynamodb_resource boto now = accessor (1 / 2) (dynamodb_resource boto now)"

definition get_textract_client :: "boto3 \<Rightarrow> timestamp \<Rightarrow> (nat \<Rightarrow> rat) \<Rightarrow> AWSClientManager \<Rightarrow> accessor_result" where
  "get_textract_client boto now = accessor 1 (cached_client boto now ''textract'' ''textract'')"

definition get_cognito_client :: "boto3 \<Rightarrow> timestamp \<Rightarrow> (nat \<Rightarrow> rat) \<Rightarrow> AWSClientManager \<Rightarrow> accessor_result" where
  "get_cognito_client boto now = accessor (1 / 2) (cached_client boto now ''cognito'' ''cognito-idp'')"

definition get_ses_client :: "boto3 \<Rightarrow> timestamp \<Rightarrow> (nat \<Rightarrow> rat) \<Rightarrow> AWSClientManager \<Rightarrow> accessor_result" where
  "get_ses_client boto now = accessor 1 (cached_client boto now ''ses'' ''ses'')"

definition get_sns_client :: "boto3 \<Rightarrow> timestamp \<Rightarrow> (nat \<Rightarrow> rat) \<Rightarrow> AWSClientManager \<Rightarrow> accessor_result" where
  "get_sns_client boto now = accessor 1 (cached_client boto now ''sns'' ''sns'')"

definition get_sagemaker_client :: "boto3 \<Rightarrow> timestamp \<Rightarrow> (nat \<Rightarrow> rat) \<Rightarrow> AWSClientManager \<Rightarrow> accessor_result" where
  "get_sagemaker_client boto now = accessor 2 (cached_client boto now ''sagemaker'' ''sagemaker-runtime'')"

definition get_comprehend_medical_client :: "boto3 \<Rightarrow> timestamp \<Rightarrow> (nat \<Rightarrow> rat) \<Rightarrow> AWSClientManager \<Rightarrow> accessor_result" where
  "get_comprehend_medical_client boto now =
     accessor 1 (cached_client boto now ''comprehend_medical'' ''comprehendmedical'')"

definition get_kms_client :: "boto3 \<Rightarrow> timestamp \<Rightarrow> (nat \<Rightarrow> rat) \<Rightarrow> AWSClientManager \<Rightarrow> accessor_result" where
  "get_kms_client boto now = accessor (1 / 2) (cached_client boto now ''kms'' ''kms'')"

definition get_transcribe_client :: "boto3 \<Rightarrow> timestamp \<Rightarrow> (nat \<Rightarrow> rat) \<Rightarrow> AWSClientManager \<Rightarrow> accessor_result" where
  "get_transcribe_client boto now = accessor 1 (cached_client boto now ''transcribe'' ''transcribe'')"

definition get_polly_client :: "boto3 \<Rightarrow> timestamp \<Rightarrow> (nat \<Rightarrow> rat) \<Rightarrow> AWSClientManager \<Rightarrow> accessor_result" where
  "get_polly_client boto now = accessor 1 (cached_client boto now ''polly'' ''polly'')"

definition get_stepfunctions_client :: "boto3 \<Rightarrow> timestamp \<Rightarrow> (nat \<Rightarrow> rat) \<Rightarrow> AWSClientManager \<Rightarrow> accessor_result" where
  "get_stepfunctions_client boto now =
     accessor 1 (cached_client boto now ''stepfunctions'' ''stepfunctions'')"

definition get_s3_client :: "boto3 \<Rightarrow> timestamp \<Rightarrow> (nat \<Rightarrow> rat) \<Rightarrow> AWSClientManager \<Rightarrow> accessor_result" where
  "get_s3_client boto now = accessor (1 / 2) (cached_client boto now ''s3'' ''s3'')"

text \<open>\<^verbatim>\<open>AWSClientManager.refresh_clients\<close>; the reloaded settings give the region.\<close>

definition refresh_clients :: "string \<Rightarrow> AWSClientManager \<Rightarrow> AWSClientManager" where
  "refresh_clients settings_region st = st\<lparr>clients := Map.empty, region := settings_region\<rparr>"

text \<open>The dictionary \<^verbatim>\<open>client_methods\<close> of \<^verbatim>\<open>get_client_status\<close>.\<close>

definition client_methods ::
  "string \<rightharpoonup> (boto3 \<Rightarrow> timestamp \<Rightarrow> (nat \<Rightarrow> rat) \<Rightarrow> AWSClientManager \<Rightarrow> accessor_result)" where
  "client_methods =
     map_of
       [(''bedrock'', get_bedrock_client), (''dynamodb'', get_dynamodb_resource),
        (''textract'', get_textract_client), (''cognito'', get_cognito_client),
        (''ses'', get_ses_client), (''sns'', get_sns_client),
        (''sagemaker'', get_sagemaker_client),
        (''comprehend_medical'', get_comprehend_medical_client),
        (''kms'', get_kms_client), (''transcribe'', get_transcribe_client),
        (''polly'', get_polly_client), (''stepfunctions'', get_stepfunctions_client),
        (''s3'', get_s3_client)]"

text \<open>
  The three dictionaries \<^verbatim>\<open>get_client_status\<close> returns: an unknown service (with the
  name); a status with \<^verbatim>\<open>client_initialized\<close> and the region; an error with its message
  and the region.
\<close>

datatype client_status =
  UnknownService string
| ClientStatus string bool string
| ClientFailed string string

text \<open>\<^verbatim>\<open>client is not None\<close>, for what an accessor returned.\<close>

fun is_not_None :: "handle option option \<Rightarrow> bool" where
  "is_not_None (Some (Some client)) = True"
| "is_not_None r = False"

text \<open>\<^verbatim>\<open>AWSClientManager.get_client_status\<close>\<close>

definition get_client_status ::
  "boto3 \<Rightarrow> timestamp \<Rightarrow> (nat \<Rightarrow> rat) \<Rightarrow> string \<Rightarrow> AWSClientManager
     \<Rightarrow> client_status \<times> AWSClientManager" where
  "get_client_status boto now time_time service_name st =
     (case client_methods service_name of
        None \<Rightarrow> (UnknownService service_name, st)
      | Some method \<Rightarrow>
          (case method boto now time_time st of
             (Inr client, st', lg) \<Rightarrow>
               (ClientStatus (if is_not_None client then ''healthy'' else ''unavailable'')
                  (is_not_None client) (region st'), st')
           | (Inl e, st', lg) \<Rightarrow> (ClientFailed (exn_msg e) (region st'), st')))"

text \<open>The list \<^verbatim>\<open>services\<close> of \<^verbatim>\<open>health_check\<close>.\<close>

definition services :: "string list" where
  "services =
     [''bedrock'', ''dynamodb'', ''textract'', ''cognito'', ''ses'', ''sns'', ''sagemaker'',
      ''comprehend_medical'', ''kms'', ''transcribe'', ''polly'', ''stepfunctions'', ''s3'']"

text \<open>
  One entry of \<^verbatim>\<open>health_status\<close>: the client status, the health data merged over it
  (so the entry's \<^verbatim>\<open>'status'\<close> is the health data's), and the breaker's state, failure
  count and last failure time.
\<close>

record service_row =
  row_service :: string
  row_client :: client_status
  row_health :: health_report
  row_breaker :: "(CircuitBreakerState \<times> int \<times> timestamp option) option"

definition row_status :: "service_row \<Rightarrow> string" where
  "row_status row = report_status (row_health row)"

record health_loop_state =
  rows :: "service_row list"
  enabled_services :: "string list"
  healthy_services :: nat
  critical_services :: nat
  manager :: AWSClientManager

text \<open>The \<^verbatim>\<open>for service in services\<close> loop of \<^verbatim>\<open>health_check\<close>.\<close>

fun health_loop ::
  "boto3 \<Rightarrow> timestamp \<Rightarrow> (nat \<Rightarrow> rat) \<Rightarrow> string list \<Rightarrow> health_loop_state \<Rightarrow> health_loop_state" where
  "health_loop boto now time_time [] acc = acc"
| "health_loop boto now time_time (service # rest) acc =
     (case get_client_status boto now time_time service (manager acc) of
        (service_status, st') \<Rightarrow>
          let row = \<lparr>row_service = service, row_client = service_status,
                     row_health = get_health_status service (health_monitor st'),
                     row_breaker =
                       map_option (\<lambda>b. (state b, failure_count b, last_failure_time b))
                         (circuit_breakers st' service)\<rparr>;
              enabled = is_service_enabled st' service
          in health_loop boto now time_time rest
               \<lparr>rows = rows acc @ [row],
                enabled_services =
                  (if enabled then enabled_services acc @ [service] else enabled_services acc),
                healthy_services =
                  (if enabled \<and> row_status row = ''healthy''
                   then healthy_services acc + 1 else healthy_services acc),
                critical_services =
                  (if enabled \<and> row_status row \<noteq> ''healthy'' \<and> row_status row = ''critical''
                   then critical_services acc + 1 else critical_services acc),
                manager = st'\<rparr>)"

record health_summary =
  summary_healthy :: nat
  summary_critical :: nat
  summary_enabled :: nat
  summary_total :: nat
  overall_status :: string
  enabled_service_list :: "string list"
  pool_active :: int
  pool_max :: int
  utilization :: rat

text \<open>
  \<^verbatim>\<open>AWSClientManager.health_check\<close>: the loop, then the summary. The pool's
  utilization divides by \<open>max_connections\<close>, which raises when that is 0; the state
  after the call is returned on both paths. The clock readings of the whole call are one
  instant \<open>now\<close>; the time stamp and the settings the summary copies are left out.
\<close>

definition health_check ::
  "boto3 \<Rightarrow> timestamp \<Rightarrow> (nat \<Rightarrow> rat) \<Rightarrow> AWSClientManager
     \<Rightarrow> (exn + service_row list \<times> health_summary) \<times> AWSClientManager" where
  "health_check boto now time_time st =
     (let acc = health_loop boto now time_time services
                  \<lparr>rows = [], enabled_services = [], healthy_services = 0,
                   critical_services = 0, manager = st\<rparr>;
          st' = manager acc;
          enabled_count = length (enabled_services acc);
          overall =
            (if enabled_count = 0 then ''unknown''
             else if critical_services acc > 0 then ''critical''
             else if rat_of_nat (healthy_services acc) < rat_of_nat enabled_count * (8 / 10)
               then ''degraded''
             else if healthy_services acc = enabled_count then ''healthy''
             else ''warning'')
      in if max_connections (connection_pool st') = 0
         then (Inl (Exn ZeroDivisionError ''division by zero''), st')
         else
           (Inr (rows acc,
                 \<lparr>summary_healthy = healthy_services acc,
                  summary_critical = critical_services acc,
                  summary_enabled = enabled_count,
                  summary_total = length services,
                  overall_status = overall,
                  enabled_service_list = enabled_services acc,
                  pool_active = active_connections (connection_pool st'),
                  pool_max = max_connections (connection_pool st'),
                  utilization = rat_of_int (active_connections (connection_pool st'))
                                / rat_of_int (max_connections (connection_pool st'))\<rparr>),
            st'))"

text \<open>The three assignments that reset one breaker.\<close>

definition reset_breaker :: "CircuitBreaker \<Rightarrow> CircuitBreaker" where
  "reset_breaker b = b\<lparr>failure_count := 0, state := CLOSED, last_failure_time := None\<rparr>"

text \<open>
  \<^verbatim>\<open>AWSClientManager.reset_circuit_breakers\<close>: \<^verbatim>\<open>if service_name:\<close> is false for
  \<open>None\<close> and for the empty string, and then every breaker is reset.
\<close>

definition reset_circuit_breakers :: "string option \<Rightarrow> AWSClientManager \<Rightarrow> AWSClientManager" where
  "reset_circuit_breakers service_name st =
     (case service_name of
        Some name \<Rightarrow>
          if name \<noteq> [] then st\<lparr>circuit_breakers := update_breaker reset_breaker name (circuit_breakers st)\<rparr>
          else st\<lparr>circuit_breakers := map_option reset_breaker \<circ> circuit_breakers st\<rparr>
      | None \<Rightarrow> st\<lparr>circuit_breakers := map_option reset_breaker \<circ> circuit_breakers st\<rparr>)"

text \<open>
  \<^verbatim>\<open>AWSClientManager.force_refresh_client\<close>: the breaker is reset inside the
  \<^verbatim>\<open>if service_name in self._clients\<close> block, after the entry is deleted.
\<close>

definition force_refresh_client :: "string \<Rightarrow> AWSClientManager \<Rightarrow> AWSClientManager" where
  "force_refresh_client service_name st =
     (if clients st service_name \<noteq> None then
        let st1 = st\<lparr>clients := (clients st)(service_name := None)\<rparr>
        in if circuit_breakers st1 service_name \<noteq> None
           then reset_circuit_breakers (Some service_name) st1
           else st1
      else st)"

text \<open>
  The calls a client of the manager can make, each with the clock reading it runs at
  where it reads the clock, and the manager after a sequence of them.
\<close>

datatype manager_call =
  GetClientStatus string timestamp
| HealthCheck timestamp
| RefreshClients string
| ForceRefreshClient string
| ResetCircuitBreakers "string option"

fun manager_step :: "boto3 \<Rightarrow> (nat \<Rightarrow> rat) \<Rightarrow> AWSClientManager \<Rightarrow> manager_call \<Rightarrow> AWSClientManager" where
  "manager_step boto time_time st (GetClientStatus service_name now) =
     snd (get_client_status boto now time_time service_name st)"
| "manager_step boto time_time st (HealthCheck now) = snd (health_check boto now time_time st)"
| "manager_step boto time_time st (RefreshClients settings_region) =
     refresh_clients settings_region st"
| "manager_step boto time_time st (ForceRefreshClient service_name) =
     force_refresh_client service_name st"
| "manager_step boto time_time st (ResetCircuitBreakers service_name) =
     reset_circuit_breakers service_name st"

definition manager_run ::
  "boto3 \<Rightarrow> (nat \<Rightarrow> rat) \<Rightarrow> manager_call list \<Rightarrow> AWSClientManager \<Rightarrow> AWSClientManager" where
  "manager_run boto time_time cs st = foldl (manager_step boto time_time) st cs"

subsection \<open>Invariant and frame of the manager's calls\<close>

text \<open>
  The cache never holds a handle for a service the configuration does not enable.
\<close>

definition cache_respects_config :: "AWSClientManager \<Rightarrow> bool" where
  "cache_respects_config st \<longleftrightarrow>
     (\<forall>service_name client. clients st service_name = Some (Some client)
        \<longrightarrow> is_service_enabled st service_name)"

text \<open>
  \<open>touches S st st'\<close>: what a call that works on the services \<open>S\<close> may change between
  \<open>st\<close> and \<open>st'\<close>. The configuration and the region stay; the cache entry, the health
  record and the breaker of every service outside \<open>S\<close> stay; the pool is back as it was
  (if its counter was not negative); no cache entry is removed; the cache still respects
  the configuration; and the trace is only extended.
\<close>

definition touches :: "string set \<Rightarrow> AWSClientManager \<Rightarrow> AWSClientManager \<Rightarrow> bool" where
  "touches S st st' \<longleftrightarrow>
     aws_config st' = aws_config st \<and> region st' = region st
     \<and> (\<forall>n. n \<notin> S \<longrightarrow> clients st' n = clients st n
                     \<and> health_monitor st' n = health_monitor st n
                     \<and> circuit_breakers st' n = circuit_breakers st n)
     \<and> (0 \<le> active_connections (connection_pool st)
          \<longrightarrow> connection_pool st' = connection_pool st)
     \<and> dom (clients st) \<subseteq> dom (clients st')
     \<and> (cache_respects_config st \<longrightarrow> cache_respects_config st')
     \<and> (\<exists>es. trace st' = trace st @ es)"

subsection \<open>Scenarios\<close>

text \<open>
  Concrete inputs for the examples below. \<open>failing_until n\<close> is a boto3 whose first
  \<open>n\<close> construction attempts raise a \<open>ClientError\<close> and whose later attempts return the
  attempt's number as the handle; \<open>all_enabled\<close> is a configuration file that enables
  every service of \<open>services\<close>; \<open>fresh_manager\<close> is the manager right after
  \<^verbatim>\<open>__init__\<close> with that file and the default pool settings.
\<close>

definition failing_until :: "nat \<Rightarrow> boto3" where
  "failing_until n service_type k =
     (if k < n then Inl (Exn ClientError ''EndpointConnectionError'') else Inr k)"

definition all_enabled :: "string \<rightharpoonup> bool" where
  "all_enabled = map_of (map (\<lambda>service. (service, True)) services)"

definition fresh_manager :: AWSClientManager where
  "fresh_manager = new_manager all_enabled 50 10 30"

text \<open>
  Five failed constructions of the Bedrock client, one per second, with the cache cleared
  after each: the manager this leaves has Bedrock's breaker open since second 5 and no
  entry for Bedrock in the cache.
\<close>

definition bedrock_outage :: "manager_call list" where
  "bedrock_outage =
     [GetClientStatus ''bedrock'' 1000000, RefreshClients ''ap-south-1'',
      GetClientStatus ''bedrock'' 2000000, RefreshClients ''ap-south-1'',
      GetClientStatus ''bedrock'' 3000000, RefreshClients ''ap-south-1'',
      GetClientStatus ''bedrock'' 4000000, RefreshClients ''ap-south-1'',
      GetClientStatus ''bedrock'' 5000000, RefreshClients ''ap-south-1'']"

definition after_outage :: AWSClientManager where
  "after_outage = manager_run (failing_until 5) (\<lambda>k. 0) bedrock_outage fresh_manager"

text \<open>
  One failed construction of the Bedrock client on a fresh manager, with a boto3 that
  raises on its first attempt only: \<open>after_failed_get\<close> is the manager the call leaves.
\<close>

definition no_clock :: "nat \<Rightarrow> rat" where
  "no_clock k = 0"

definition after_failed_get :: AWSClientManager where
  "after_failed_get = fst (snd (get_bedrock_client (failing_until 1) 1000000 no_clock fresh_manager))"


section \<open>Properties\<close>

subsection \<open>Connection pool\<close>

lemma pool_step_invariant: "pool_invariant p \<Longrightarrow> pool_invariant (pool_step p c)"
  by (cases c) (auto simp: pool_invariant_def acquire_connection_def release_connection_def)

lemma pool_run_invariant: "pool_invariant p \<Longrightarrow> pool_invariant (pool_run cs p)"
  unfolding pool_run_def
  by (induction cs arbitrary: p) (simp_all add: pool_step_invariant)

text \<open>
  Claim C6. The pool invariant \<open>0 \<le> active_connections \<le> max_connections\<close> is preserved
  by every sequence of \<open>acquire_connection\<close> and \<open>release_connection\<close> calls; an acquire
  at \<open>active_connections = max_connections\<close> raises the pool-exhausted error and leaves
  the pool as it was; and a release never takes a non-negative counter below zero.
\<close>

theorem pool_bound:
  "pool_invariant p \<Longrightarrow>
     pool_invariant (pool_run cs p)
     \<and> (active_connections p = max_connections p
          \<longrightarrow> acquire_connection p = (Inl pool_exhausted, p))
     \<and> 0 \<le> active_connections (release_connection p)"
proof (intro conjI impI)
  assume inv: "pool_invariant p"
  show "pool_invariant (pool_run cs p)"
    using inv by (rule pool_run_invariant)
  show "0 \<le> active_connections (release_connection p)"
    using inv by (auto simp: pool_invariant_def release_connection_def)
next
  assume "active_connections p = max_connections p"
  then show "acquire_connection p = (Inl pool_exhausted, p)"
    by (simp add: acquire_connection_def)
qed

theorem pool_bound_witness:
  "pool_invariant (pool_run [Acquire, Acquire] (new_pool 2 10 30))
   \<and> pool_invariant
        (pool_run [Acquire, Release, Release] (pool_run [Acquire, Acquire] (new_pool 2 10 30)))
   \<and> active_connections (pool_run [Acquire, Acquire] (new_pool 2 10 30)) = 2
   \<and> max_connections (pool_run [Acquire, Acquire] (new_pool 2 10 30)) = 2
   \<and> acquire_connection (pool_run [Acquire, Acquire] (new_pool 2 10 30))
       = (Inl pool_exhausted, pool_run [Acquire, Acquire] (new_pool 2 10 30))
   \<and> 0 \<le> active_connections (release_connection (pool_run [Acquire, Acquire] (new_pool 2 10 30)))"
proof -
  let ?p = "pool_run [Acquire, Acquire] (new_pool 2 10 30)"
  have full: "active_connections ?p = 2" "max_connections ?p = 2"
    by (simp_all add: pool_run_def new_pool_def acquire_connection_def)
  have inv: "pool_invariant ?p"
    using full by (simp add: pool_invariant_def)
  show ?thesis
    using inv full pool_bound [OF inv, of "[Acquire, Release, Release]"] by simp
qed

subsection \<open>Circuit breaker\<close>

lemma on_failure_fields:
  "failure_count (on_failure t b) = failure_count b + 1"
  "failure_threshold (on_failure t b) = failure_threshold b"
  "last_failure_time (on_failure t b) = Some t"
  by (simp_all add: on_failure_def Let_def)

lemma on_failure_opens:
  "failure_threshold b \<le> failure_count b + 1 \<Longrightarrow> state (on_failure t b) = OPEN"
  by (simp add: on_failure_def Let_def)

lemma record_failures_count:
  "failure_count (record_failures ts b) = failure_count b + int (length ts)"
  by (induction ts arbitrary: b) (simp_all add: on_failure_fields)

lemma record_failures_threshold:
  "failure_threshold (record_failures ts b) = failure_threshold b"
  by (induction ts arbitrary: b) (simp_all add: on_failure_fields)

lemma record_failures_snoc:
  "record_failures (ts @ [t]) b = on_failure t (record_failures ts b)"
  by (induction ts arbitrary: b) simp_all

lemma record_failures_open:
  assumes "ts \<noteq> []" and "failure_threshold b \<le> failure_count b + int (length ts)"
  shows "state (record_failures ts b) = OPEN"
proof -
  obtain us u where ts: "ts = us @ [u]"
    using assms(1) by (metis rev_exhaust)
  have "failure_threshold (record_failures us b) \<le> failure_count (record_failures us b) + 1"
    using assms(2) by (simp add: ts record_failures_count record_failures_threshold)
  then show ?thesis
    by (simp add: ts record_failures_snoc on_failure_opens)
qed

text \<open>
  Claim C7. A breaker in \<open>CLOSED\<close> with \<open>failure_count = 0\<close> and a positive threshold is
  \<open>OPEN\<close> after \<open>failure_threshold\<close> recorded failures in a row (whatever the clock
  read at each); and a recorded success, from any state and so from \<open>HALF_OPEN\<close>, leaves
  \<open>state = CLOSED\<close> and \<open>failure_count = 0\<close>.
\<close>

theorem breaker_monotonicity:
  "0 < failure_threshold b \<Longrightarrow> state b = CLOSED \<Longrightarrow> failure_count b = 0 \<Longrightarrow>
   int (length ts) = failure_threshold b \<Longrightarrow>
     state (record_failures ts b) = OPEN
     \<and> state (on_success b') = CLOSED \<and> failure_count (on_success b') = 0"
proof (intro conjI)
  assume pos: "0 < failure_threshold b" and zero: "failure_count b = 0"
    and len: "int (length ts) = failure_threshold b"
  from pos len have "ts \<noteq> []" by auto
  moreover from zero len have "failure_threshold b \<le> failure_count b + int (length ts)" by simp
  ultimately show "state (record_failures ts b) = OPEN"
    by (rule record_failures_open)
qed (simp_all add: on_success_def)

theorem breaker_monotonicity_witness:
  "state (record_failures [10, 20, 30] (new_breaker 3 30)) = OPEN
   \<and> state (record_failures [10, 20] (new_breaker 3 30)) = CLOSED
   \<and> state (on_success ((record_failures [10, 20, 30] (new_breaker 3 30))\<lparr>state := HALF_OPEN\<rparr>)) = CLOSED
   \<and> failure_count (on_success ((record_failures [10, 20, 30] (new_breaker 3 30))\<lparr>state := HALF_OPEN\<rparr>)) = 0"
proof -
  have two: "state (record_failures [10, 20] (new_breaker 3 30)) = CLOSED"
    by (simp add: new_breaker_def on_failure_def Let_def)
  show ?thesis
    using two
      breaker_monotonicity [of "new_breaker 3 30" "[10, 20, 30]"
        "(record_failures [10, 20, 30] (new_breaker 3 30))\<lparr>state := HALF_OPEN\<rparr>"]
    by (simp add: new_breaker_def)
qed

subsection \<open>Retry decorator\<close>


lemma frac_half_bound: "\<bar>1 / 2 - frac (t::rat)\<bar> \<le> 1 / 2"
proof -
  have "0 \<le> frac t" "frac t < 1" by (simp_all add: frac_lt_1)
  then show ?thesis by linarith
qed

lemma jitter_bound: "\<bar>jitter base t\<bar> \<le> \<bar>base\<bar> / 20"
proof -
  have "\<bar>jitter base t\<bar> = \<bar>base\<bar> * (1 / 10) * \<bar>1 / 2 - frac t\<bar>"
    by (simp add: jitter_def abs_mult)
  also have "\<dots> \<le> \<bar>base\<bar> * (1 / 10) * (1 / 2)"
    by (intro mult_left_mono frac_half_bound) simp
  finally show ?thesis by simp
qed



lemma retry_loop_exit:
  "\<not> int r < m \<Longrightarrow>
   retry_loop m d b ex tt f r le lg s =
     (case le of Some e \<Rightarrow> (Inl e, s, lg) | None \<Rightarrow> (Inr None, s, lg))"
  by (subst retry_loop.simps) simp

lemma retry_loop_ok:
  "int r < m \<Longrightarrow> f s = (Inr v, s1) \<Longrightarrow>
   retry_loop m d b ex tt f r le lg s = (Inr (Some v), s1, lg\<lparr>calls := calls lg + 1\<rparr>)"
  by (subst retry_loop.simps) simp












text \<open>
  Claim C5. The jitter added to the computed backoff delay is
  \<open>base_wait_time * 0.1 * (0.5 - time.time() % 1)\<close>: the sleep time differs from the
  pre-jitter delay by at most 5 percent of it, whatever the clock reads. With
  \<open>delay = 1\<close> and \<open>backoff = 2\<close> the first sleep is 1.05 when the clock's
  fractional part is 0 (the longest it can be) and 0.9501 when it is 0.999; it is never 0.9
  or 1.1.
\<close>

theorem jitter_is_five_percent:
  "\<bar>wait_time delay backoff retries t - base_wait_time delay backoff retries\<bar>
     \<le> \<bar>base_wait_time delay backoff retries\<bar> / 20
   \<and> wait_time 1 2 1 0 = 21 / 20
   \<and> wait_time 1 2 1 (999 / 1000) = 9501 / 10000"
proof -
  have "frac (999 / 1000 :: rat) = 999 / 1000"
    by (simp add: frac_eq)
  then show ?thesis
    using jitter_bound [of "base_wait_time delay backoff retries" t]
    by (simp add: wait_time_def base_wait_time_def jitter_def)
qed

subsection \<open>Client manager\<close>

lemma accessor_once:
  "accessor delay body time_time st
     = (Inr (Some (fst (body st))), snd (body st), \<lparr>calls = 1, raised = [], sleeps = []\<rparr>)"
proof -
  obtain c st' where body: "body st = (c, st')" by (cases "body st")
  have "(case body st of (client, s') \<Rightarrow> (Inr client :: exn + handle option, s')) = (Inr c, st')"
    by (simp add: body)
  then have "retry_loop 3 delay 2 default_exceptions time_time
               (\<lambda>s. case body s of (client, s') \<Rightarrow> (Inr client, s')) 0 None empty_log st
             = (Inr (Some c), st', empty_log\<lparr>calls := calls empty_log + 1\<rparr>)"
    by (intro retry_loop_ok) simp_all
  then show ?thesis
    by (simp add: accessor_def retry_on_failure_def body empty_log_def)
qed

lemma create_client_disabled:
  "\<not> is_service_enabled st service_name \<Longrightarrow>
   create_client_with_monitoring boto now service_name service_type st = (None, st)"
  by (simp add: create_client_with_monitoring_def)

lemma create_client_open:
  "breaker_open st service_name \<Longrightarrow>
   create_client_with_monitoring boto now service_name service_type st = (None, st)"
  by (simp add: create_client_with_monitoring_def)

lemma client_methods_simps:
  "client_methods ''bedrock'' = Some get_bedrock_client"
  "client_methods ''dynamodb'' = Some get_dynamodb_resource"
  "client_methods ''textract'' = Some get_textract_client"
  "client_methods ''cognito'' = Some get_cognito_client"
  "client_methods ''ses'' = Some get_ses_client"
  "client_methods ''sns'' = Some get_sns_client"
  "client_methods ''sagemaker'' = Some get_sagemaker_client"
  "client_methods ''comprehend_medical'' = Some get_comprehend_medical_client"
  "client_methods ''kms'' = Some get_kms_client"
  "client_methods ''transcribe'' = Some get_transcribe_client"
  "client_methods ''polly'' = Some get_polly_client"
  "client_methods ''stepfunctions'' = Some get_stepfunctions_client"
  "client_methods ''s3'' = Some get_s3_client"
  by (simp_all add: client_methods_def)

lemmas manager_eval =
  manager_run_def get_client_status_def client_methods_simps accessor_once
  get_bedrock_client_def cached_client_def create_client_with_monitoring_def
  dynamodb_resource_def get_dynamodb_resource_def
  new_manager_def fresh_manager_def all_enabled_def services_def
  is_service_enabled_def breaker_open_def initial_circuit_breakers_def new_breaker_def
  acquire_connection_def release_connection_def new_pool_def Let_def failing_until_def
  client_failure_def client_success_def release_def update_breaker_def
  on_failure_def on_success_def refresh_clients_def record_failure_def record_success_def
  health_entry_def new_health_record_def constructions_def

lemma after_outage_eval:
  "after_outage =
     \<lparr>aws_config = all_enabled, region = ''ap-south-1'',
      connection_pool = new_pool 50 10 30,
      health_monitor =
        [''bedrock'' \<mapsto>
           \<lparr>success_count = 0, health_failure_count = 5, last_success = None,
            last_failure = Some 5000000, consecutive_failures = 5,
            last_error = Some ''EndpointConnectionError''\<rparr>],
      circuit_breakers =
        initial_circuit_breakers
          (''bedrock'' \<mapsto>
             (new_breaker 5 60)\<lparr>failure_count := 5, last_failure_time := Some 5000000,
                                 state := OPEN\<rparr>),
      clients = Map.empty,
      trace = [PoolAcquired, Construct ''bedrock-runtime'', PoolReleased,
               PoolAcquired, Construct ''bedrock-runtime'', PoolReleased,
               PoolAcquired, Construct ''bedrock-runtime'', PoolReleased,
               PoolAcquired, Construct ''bedrock-runtime'', PoolReleased,
               PoolAcquired, Construct ''bedrock-runtime'', PoolReleased]\<rparr>"
  unfolding after_outage_def bedrock_outage_def
  by (simp add: manager_eval)


text \<open>
  Claim C1. For an enabled service whose breaker is \<open>OPEN\<close> and whose last failure
  is at least \<open>recovery_timeout\<close> old, \<^verbatim>\<open>_create_client_with_monitoring\<close> returns
  \<open>None\<close> and leaves the whole manager as it was: the breaker stays \<open>OPEN\<close>, nothing
  is constructed. The accessor of a service with no entry in the cache returns \<open>None\<close>
  after one invocation and stores that \<open>None\<close> in the cache. The breaker's own
  \<^verbatim>\<open>__call__\<close> does run the guarded call in that situation.
\<close>

theorem open_breaker_never_recovers:
  "is_service_enabled st service_name \<Longrightarrow> circuit_breakers st service_name = Some b \<Longrightarrow>
   state b = OPEN \<Longrightarrow> should_attempt_reset now b \<Longrightarrow> clients st service_name = None \<Longrightarrow>
     create_client_with_monitoring boto now service_name service_type st = (None, st)
     \<and> accessor delay (cached_client boto now service_name service_type) time_time st
         = (Inr (Some None), st\<lparr>clients := (clients st)(service_name \<mapsto> None)\<rparr>,
            \<lparr>calls = 1, raised = [], sleeps = []\<rparr>)
     \<and> fst (breaker_call now func b s) = fst (func s)"
proof (intro conjI)
  assume b: "circuit_breakers st service_name = Some b" "state b = OPEN"
    and reset: "should_attempt_reset now b" and empty: "clients st service_name = None"
  have "breaker_open st service_name"
    using b by (simp add: breaker_open_def)
  then show create: "create_client_with_monitoring boto now service_name service_type st = (None, st)"
    by (rule create_client_open)
  show "accessor delay (cached_client boto now service_name service_type) time_time st
         = (Inr (Some None), st\<lparr>clients := (clients st)(service_name \<mapsto> None)\<rparr>,
            \<lparr>calls = 1, raised = [], sleeps = []\<rparr>)"
    by (simp add: accessor_once cached_client_def empty create)
  show "fst (breaker_call now func b s) = fst (func s)"
    using b reset by (simp add: breaker_call_def Let_def split: prod.splits sum.splits)
qed

theorem open_breaker_never_recovers_witness:
  "is_service_enabled after_outage ''bedrock''
   \<and> map_option state (circuit_breakers after_outage ''bedrock'') = Some OPEN
   \<and> map_option (should_attempt_reset 66000000) (circuit_breakers after_outage ''bedrock'')
       = Some True
   \<and> failing_until 5 ''bedrock-runtime'' (constructions after_outage) = Inr 5
   \<and> get_bedrock_client (failing_until 5) 66000000 (\<lambda>k. 0) after_outage
       = (Inr (Some None),
          after_outage\<lparr>clients := (clients after_outage)(''bedrock'' \<mapsto> None)\<rparr>,
          \<lparr>calls = 1, raised = [], sleeps = []\<rparr>)"
proof -
  let ?b = "(new_breaker 5 60)\<lparr>failure_count := 5, last_failure_time := Some 5000000,
                                 state := OPEN\<rparr>"
  have enabled: "is_service_enabled after_outage ''bedrock''"
    by (simp add: after_outage_eval is_service_enabled_def all_enabled_def services_def)
  have b: "circuit_breakers after_outage ''bedrock'' = Some ?b"
    by (simp add: after_outage_eval)
  have "open": "state ?b = OPEN" by simp
  have reset: "should_attempt_reset 66000000 ?b"
    by (simp add: should_attempt_reset_def timedelta_seconds_def new_breaker_def)
  have empty: "clients after_outage ''bedrock'' = None"
    by (simp add: after_outage_eval)
  have healthy: "failing_until 5 ''bedrock-runtime'' (constructions after_outage) = Inr 5"
    by (simp add: after_outage_eval constructions_def failing_until_def)
  show ?thesis
    using open_breaker_never_recovers [OF enabled b "open" reset empty, of "failing_until 5"
        "''bedrock-runtime''" 1 "\<lambda>k. 0" "\<lambda>u::unit. (Inr (), u)" "()"]
      enabled b reset healthy
    by (simp add: get_bedrock_client_def)
qed

lemma release_after_acquire:
  "0 \<le> active_connections p \<Longrightarrow>
   release_connection (p\<lparr>active_connections := active_connections p + 1\<rparr>) = p"
  by (simp add: release_connection_def)

lemma constructions_append:
  "constructions (st\<lparr>trace := trace st @ es\<rparr>) = constructions st + length (filter is_construct es)"
  by (simp add: constructions_def)

text \<open>
  Claim C2. For an enabled service with a breaker that is not open, no entry in the cache
  and a free pool slot, whose first construction attempt raises (a \<open>ClientError\<close> or
  any other exception): the accessor, though decorated with \<^verbatim>\<open>retry_on_failure\<close>,
  invokes its body once and never sleeps; boto3 is asked once; the failure is recorded in the
  health monitor and the breaker right after that one attempt; and \<open>None\<close> is returned
  and stored in the cache.
\<close>

theorem accessor_never_retries:
  "is_service_enabled st service_name \<Longrightarrow> \<not> breaker_open st service_name \<Longrightarrow>
   clients st service_name = None \<Longrightarrow>
   0 \<le> active_connections (connection_pool st) \<Longrightarrow>
   active_connections (connection_pool st) < max_connections (connection_pool st) \<Longrightarrow>
   boto service_type (constructions st) = Inl e \<Longrightarrow>
   accessor delay (cached_client boto now service_name service_type) time_time st = (out, st', lg)
   \<Longrightarrow>
     out = Inr (Some None) \<and> calls lg = 1 \<and> sleeps lg = []
     \<and> constructions st' = constructions st + 1
     \<and> health_monitor st' = record_failure now service_name e (health_monitor st)
     \<and> circuit_breakers st' = update_breaker (on_failure now) service_name (circuit_breakers st)
     \<and> clients st' service_name = Some None
     \<and> connection_pool st' = connection_pool st"
  by (auto simp: accessor_once cached_client_def create_client_with_monitoring_def
        acquire_connection_def Let_def client_failure_def release_def constructions_def
        release_after_acquire)

theorem accessor_never_retries_witness:
  "failing_until 1 ''bedrock-runtime'' 0 = Inl (Exn ClientError ''EndpointConnectionError'')
   \<and> failing_until 1 ''bedrock-runtime'' 1 = Inr 1
   \<and> fst (get_bedrock_client (failing_until 1) 1000000 (\<lambda>k. 0) fresh_manager) = Inr (Some None)
   \<and> calls (snd (snd (get_bedrock_client (failing_until 1) 1000000 (\<lambda>k. 0) fresh_manager))) = 1
   \<and> constructions (fst (snd (get_bedrock_client (failing_until 1) 1000000 (\<lambda>k. 0) fresh_manager))) = 1
   \<and> map_option health_failure_count
        (health_monitor (fst (snd (get_bedrock_client (failing_until 1) 1000000 (\<lambda>k. 0) fresh_manager)))
           ''bedrock'') = Some 1
   \<and> map_option failure_count
        (circuit_breakers (fst (snd (get_bedrock_client (failing_until 1) 1000000 (\<lambda>k. 0) fresh_manager)))
           ''bedrock'') = Some 1"
proof -
  let ?r = "get_bedrock_client (failing_until 1) 1000000 (\<lambda>k. 0) fresh_manager"
  have ran: "accessor 1 (cached_client (failing_until 1) 1000000 ''bedrock'' ''bedrock-runtime'')
               (\<lambda>k. 0) fresh_manager = (fst ?r, fst (snd ?r), snd (snd ?r))"
    by (simp add: get_bedrock_client_def)
  have enabled: "is_service_enabled fresh_manager ''bedrock''"
    by (simp add: manager_eval)
  have closed: "\<not> breaker_open fresh_manager ''bedrock''"
    by (simp add: manager_eval)
  have empty: "clients fresh_manager ''bedrock'' = None"
    by (simp add: manager_eval)
  have pool: "0 \<le> active_connections (connection_pool fresh_manager)"
    "active_connections (connection_pool fresh_manager)
       < max_connections (connection_pool fresh_manager)"
    by (simp_all add: manager_eval)
  have zero: "constructions fresh_manager = 0"
    by (simp add: manager_eval)
  have fails: "failing_until 1 ''bedrock-runtime'' (constructions fresh_manager)
                 = Inl (Exn ClientError ''EndpointConnectionError'')"
    by (simp add: zero failing_until_def)
  show ?thesis
    using accessor_never_retries [OF enabled closed empty pool fails ran] zero
    by (simp add: failing_until_def record_failure_def health_entry_def new_health_record_def
          update_breaker_def fresh_manager_def new_manager_def initial_circuit_breakers_def
          new_breaker_def on_failure_def Let_def)
qed


text \<open>
  The claim C9 as stated fails where the service has no entry in the cache: after the
  outage and the last \<^verbatim>\<open>refresh_clients\<close>, \<^verbatim>\<open>force_refresh_client('bedrock')\<close> leaves
  Bedrock's breaker open with its five failures.
\<close>

theorem force_refresh_uncached_counterexample:
  "clients after_outage ''bedrock'' = None
   \<and> map_option state (circuit_breakers after_outage ''bedrock'') = Some OPEN
   \<and> map_option state (circuit_breakers (force_refresh_client ''bedrock'' after_outage) ''bedrock'')
       = Some OPEN
   \<and> map_option failure_count
        (circuit_breakers (force_refresh_client ''bedrock'' after_outage) ''bedrock'') = Some 5"
  by (simp add: force_refresh_client_def after_outage_eval)

lemma reset_circuit_breakers_entry:
  "circuit_breakers (reset_circuit_breakers (Some service_name) st) service_name
     = map_option reset_breaker (circuit_breakers st service_name)"
  by (simp add: reset_circuit_breakers_def update_breaker_def split: option.splits)

lemma reset_circuit_breakers_clients:
  "clients (reset_circuit_breakers service_name st) = clients st"
  by (simp add: reset_circuit_breakers_def split: option.splits)

text \<open>
  Claim C9, amended. \<^verbatim>\<open>force_refresh_client(name)\<close> acts only when the cache has an
  entry for the name (a handle or a cached \<open>None\<close>): it then removes the entry and resets
  the name's breaker, if it has one, to \<open>CLOSED\<close> with \<open>failure_count = 0\<close> and no
  \<open>last_failure_time\<close>, also when the breaker was \<open>OPEN\<close>. When the cache has no entry
  for the name, the manager is left as it was.
\<close>

theorem force_refresh_client_effect:
  "(clients st service_name = None \<longrightarrow> force_refresh_client service_name st = st)
   \<and> (clients st service_name \<noteq> None \<longrightarrow>
        clients (force_refresh_client service_name st) = (clients st)(service_name := None)
        \<and> circuit_breakers (force_refresh_client service_name st) service_name
            = map_option reset_breaker (circuit_breakers st service_name))
   \<and> state (reset_breaker b) = CLOSED \<and> failure_count (reset_breaker b) = 0
   \<and> last_failure_time (reset_breaker b) = None"
  by (auto simp: force_refresh_client_def Let_def reset_circuit_breakers_entry
        reset_circuit_breakers_clients reset_breaker_def)

theorem force_refresh_client_effect_witness:
  "clients (after_outage\<lparr>clients := [''bedrock'' \<mapsto> None]\<rparr>) ''bedrock'' = Some None
   \<and> map_option state
        (circuit_breakers (after_outage\<lparr>clients := [''bedrock'' \<mapsto> None]\<rparr>) ''bedrock'') = Some OPEN
   \<and> clients (force_refresh_client ''bedrock'' (after_outage\<lparr>clients := [''bedrock'' \<mapsto> None]\<rparr>))
        ''bedrock'' = None
   \<and> map_option state
        (circuit_breakers
           (force_refresh_client ''bedrock'' (after_outage\<lparr>clients := [''bedrock'' \<mapsto> None]\<rparr>))
           ''bedrock'') = Some CLOSED
   \<and> force_refresh_client ''bedrock'' after_outage = after_outage"
proof -
  let ?st = "after_outage\<lparr>clients := [''bedrock'' \<mapsto> None]\<rparr>"
  have cached: "clients ?st ''bedrock'' \<noteq> None" by simp
  have "open": "map_option state (circuit_breakers ?st ''bedrock'') = Some OPEN"
    by (simp add: after_outage_eval)
  have empty: "clients after_outage ''bedrock'' = None"
    by (simp add: after_outage_eval)
  show ?thesis
    using force_refresh_client_effect [of ?st "''bedrock''" "new_breaker 5 60"]
      force_refresh_client_effect [of after_outage "''bedrock''" "new_breaker 5 60"]
      cached "open" empty
    by (auto simp: reset_breaker_def)
qed

subsection \<open>Frames\<close>

lemma touches_refl: "touches S st st"
  by (simp add: touches_def)

lemma touches_mono: "touches S st st' \<Longrightarrow> S \<subseteq> T \<Longrightarrow> touches T st st'"
  by (auto simp: touches_def)

lemma touches_trans:
  assumes "touches S st st1" "touches T st1 st2"
  shows "touches (S \<union> T) st st2"
  using assms unfolding touches_def
  by (auto simp: subset_iff)

lemma is_service_enabled_cong:
  "aws_config st' = aws_config st \<Longrightarrow> is_service_enabled st' = is_service_enabled st"
  by (simp add: is_service_enabled_def fun_eq_iff)

lemma create_client_touches:
  "touches {service_name} st
     (snd (create_client_with_monitoring boto now service_name service_type st))"
  by (auto simp: touches_def create_client_with_monitoring_def acquire_connection_def Let_def
        client_failure_def client_success_def release_def release_after_acquire
        record_failure_def record_success_def update_breaker_def cache_respects_config_def
        is_service_enabled_def
        split: sum.splits option.splits)


lemma create_client_handle_enabled:
  "create_client_with_monitoring boto now service_name service_type st = (Some client, st')
   \<Longrightarrow> is_service_enabled st service_name"
  by (auto simp: create_client_with_monitoring_def split: if_splits)

lemma cached_client_touches:
  "touches {service_name} st (snd (cached_client boto now service_name service_type st))"
proof (cases "clients st service_name")
  case (Some c)
  then show ?thesis by (simp add: cached_client_def touches_refl)
next
  case None
  obtain c st1 where create:
    "create_client_with_monitoring boto now service_name service_type st = (c, st1)"
    by (cases "create_client_with_monitoring boto now service_name service_type st")
  have t: "touches {service_name} st st1"
    using create_client_touches [of service_name st boto now service_type] create by simp
  have en: "c \<noteq> None \<Longrightarrow> is_service_enabled st service_name"
    using create_client_handle_enabled [of boto now service_name service_type st] create by auto
  have "touches {service_name} st (st1\<lparr>clients := (clients st1)(service_name \<mapsto> c)\<rparr>)"
    using t en unfolding touches_def cache_respects_config_def
    by (auto simp: is_service_enabled_def)
  then show ?thesis by (simp add: cached_client_def None create)
qed

lemma dynamodb_resource_touches:
  "touches {''dynamodb''} st (snd (dynamodb_resource boto now st))"
proof (cases "clients st ''dynamodb''")
  case (Some c)
  then show ?thesis by (simp add: dynamodb_resource_def touches_refl)
next
  case None
  then show ?thesis
    by (auto simp: touches_def dynamodb_resource_def acquire_connection_def Let_def
        client_failure_def client_success_def release_def release_after_acquire
        record_failure_def record_success_def update_breaker_def cache_respects_config_def
        is_service_enabled_def
        split: sum.splits option.splits)
qed


lemma client_methods_elim:
  assumes "client_methods service_name = Some method"
  obtains
    (dynamodb) "service_name = ''dynamodb''" "method = get_dynamodb_resource"
  | (client) delay service_type where "service_name \<noteq> ''dynamodb''"
      "method = (\<lambda>boto now. accessor delay (cached_client boto now service_name service_type))"
proof -
  have "(service_name, method) \<in> set
          [(''bedrock'', get_bedrock_client), (''dynamodb'', get_dynamodb_resource),
           (''textract'', get_textract_client), (''cognito'', get_cognito_client),
           (''ses'', get_ses_client), (''sns'', get_sns_client),
           (''sagemaker'', get_sagemaker_client),
           (''comprehend_medical'', get_comprehend_medical_client),
           (''kms'', get_kms_client), (''transcribe'', get_transcribe_client),
           (''polly'', get_polly_client), (''stepfunctions'', get_stepfunctions_client),
           (''s3'', get_s3_client)]"
    using assms unfolding client_methods_def by (rule map_of_SomeD)
  then have
    "service_name = ''bedrock'' \<and> method = get_bedrock_client
     \<or> service_name = ''dynamodb'' \<and> method = get_dynamodb_resource
     \<or> service_name = ''textract'' \<and> method = get_textract_client
     \<or> service_name = ''cognito'' \<and> method = get_cognito_client
     \<or> service_name = ''ses'' \<and> method = get_ses_client
     \<or> service_name = ''sns'' \<and> method = get_sns_client
     \<or> service_name = ''sagemaker'' \<and> method = get_sagemaker_client
     \<or> service_name = ''comprehend_medical'' \<and> method = get_comprehend_medical_client
     \<or> service_name = ''kms'' \<and> method = get_kms_client
     \<or> service_name = ''transcribe'' \<and> method = get_transcribe_client
     \<or> service_name = ''polly'' \<and> method = get_polly_client
     \<or> service_name = ''stepfunctions'' \<and> method = get_stepfunctions_client
     \<or> service_name = ''s3'' \<and> method = get_s3_client"
    by (simp only: list.set insert_iff prod.inject empty_iff simp_thms)
  then show thesis
  proof (elim disjE conjE)
    assume a: "service_name = ''bedrock''" "method = get_bedrock_client"
    have "service_name \<noteq> ''dynamodb''" using a(1) by simp
    moreover have "method = (\<lambda>boto now. accessor 1 (cached_client boto now service_name ''bedrock-runtime''))"
      using a by (simp add: get_bedrock_client_def fun_eq_iff)
    ultimately show thesis by (rule client)
  next
    assume a: "service_name = ''dynamodb''" "method = get_dynamodb_resource"
    then show thesis by (rule dynamodb)
  next
    assume a: "service_name = ''textract''" "method = get_textract_client"
    have "service_name \<noteq> ''dynamodb''" using a(1) by simp
    moreover have "method = (\<lambda>boto now. accessor 1 (cached_client boto now service_name ''textract''))"
      using a by (simp add: get_textract_client_def fun_eq_iff)
    ultimately show thesis by (rule client)
  next
    assume a: "service_name = ''cognito''" "method = get_cognito_client"
    have "service_name \<noteq> ''dynamodb''" using a(1) by simp
    moreover have "method = (\<lambda>boto now. accessor (1 / 2) (cached_client boto now service_name ''cognito-idp''))"
      using a by (simp add: get_cognito_client_def fun_eq_iff)
    ultimately show thesis by (rule client)
  next
    assume a: "service_name = ''ses''" "method = get_ses_client"
    have "service_name \<noteq> ''dynamodb''" using a(1) by simp
    moreover have "method = (\<lambda>boto now. accessor 1 (cached_client boto now service_name ''ses''))"
      using a by (simp add: get_ses_client_def fun_eq_iff)
    ultimately show thesis by (rule client)
  next
    assume a: "service_name = ''sns''" "method = get_sns_client"
    have "service_name \<noteq> ''dynamodb''" using a(1) by simp
    moreover have "method = (\<lambda>boto now. accessor 1 (cached_client boto now service_name ''sns''))"
      using a by (simp add: get_sns_client_def fun_eq_iff)
    ultimately show thesis by (rule client)
  next
    assume a: "service_name = ''sagemaker''" "method = get_sagemaker_client"
    have "service_name \<noteq> ''dynamodb''" using a(1) by simp
    moreover have "method = (\<lambda>boto now. accessor 2 (cached_client boto now service_name ''sagemaker-runtime''))"
      using a by (simp add: get_sagemaker_client_def fun_eq_iff)
    ultimately show thesis by (rule client)
  next
    assume a: "service_name = ''comprehend_medical''" "method = get_comprehend_medical_client"
    have "service_name \<noteq> ''dynamodb''" using a(1) by simp
    moreover have "method = (\<lambda>boto now. accessor 1 (cached_client boto now service_name ''comprehendmedical''))"
      using a by (simp add: get_comprehend_medical_client_def fun_eq_iff)
    ultimately show thesis by (rule client)
  next
    assume a: "service_name = ''kms''" "method = get_kms_client"
    have "service_name \<noteq> ''dynamodb''" using a(1) by simp
    moreover have "method = (\<lambda>boto now. accessor (1 / 2) (cached_client boto now service_name ''kms''))"
      using a by (simp add: get_kms_client_def fun_eq_iff)
    ultimately show thesis by (rule client)
  next
    assume a: "service_name = ''transcribe''" "method = get_transcribe_client"
    have "service_name \<noteq> ''dynamodb''" using a(1) by simp
    moreover have "method = (\<lambda>boto now. accessor 1 (cached_client boto now service_name ''transcribe''))"
      using a by (simp add: get_transcribe_client_def fun_eq_iff)
    ultimately show thesis by (rule client)
  next
    assume a: "service_name = ''polly''" "method = get_polly_client"
    have "service_name \<noteq> ''dynamodb''" using a(1) by simp
    moreover have "method = (\<lambda>boto now. accessor 1 (cached_client boto now service_name ''polly''))"
      using a by (simp add: get_polly_client_def fun_eq_iff)
    ultimately show thesis by (rule client)
  next
    assume a: "service_name = ''stepfunctions''" "method = get_stepfunctions_client"
    have "service_name \<noteq> ''dynamodb''" using a(1) by simp
    moreover have "method = (\<lambda>boto now. accessor 1 (cached_client boto now service_name ''stepfunctions''))"
      using a by (simp add: get_stepfunctions_client_def fun_eq_iff)
    ultimately show thesis by (rule client)
  next
    assume a: "service_name = ''s3''" "method = get_s3_client"
    have "service_name \<noteq> ''dynamodb''" using a(1) by simp
    moreover have "method = (\<lambda>boto now. accessor (1 / 2) (cached_client boto now service_name ''s3''))"
      using a by (simp add: get_s3_client_def fun_eq_iff)
    ultimately show thesis by (rule client)
  qed
qed


lemma get_client_status_method:
  "client_methods service_name = Some method \<Longrightarrow>
   snd (get_client_status boto now time_time service_name st)
     = fst (snd (method boto now time_time st))"
  by (simp add: get_client_status_def split: prod.splits sum.splits)

lemma get_client_status_touches:
  "touches {service_name} st (snd (get_client_status boto now time_time service_name st))"
proof (cases "client_methods service_name")
  case None
  then show ?thesis by (simp add: get_client_status_def touches_refl)
next
  case (Some getter)
  note step = get_client_status_method [OF Some, of boto now time_time st]
  from Some show ?thesis
  proof (cases rule: client_methods_elim)
    case dynamodb
    have "snd (get_client_status boto now time_time service_name st)
            = snd (dynamodb_resource boto now st)"
      by (simp add: step dynamodb(2) get_dynamodb_resource_def accessor_once)
    then show ?thesis
      using dynamodb_resource_touches [of st boto now] by (simp add: dynamodb(1))
  next
    case (client delay service_type)
    have "snd (get_client_status boto now time_time service_name st)
            = snd (cached_client boto now service_name service_type st)"
      by (simp add: step client(2) accessor_once)
    then show ?thesis
      using cached_client_touches [of service_name st boto now service_type] by simp
  qed
qed

lemma health_loop_append:
  "health_loop boto now time_time (xs @ ys) acc
     = health_loop boto now time_time ys (health_loop boto now time_time xs acc)"
  by (induction xs arbitrary: acc) (simp_all add: Let_def split: prod.splits)

lemma health_loop_single:
  "manager (health_loop boto now time_time [service] acc)
     = snd (get_client_status boto now time_time service (manager acc))"
  by (simp add: Let_def split: prod.splits)

lemma health_loop_touches:
  "touches (set xs) (manager acc) (manager (health_loop boto now time_time xs acc))"
proof (induction xs arbitrary: acc)
  case Nil
  show ?case by (simp add: touches_refl)
next
  case (Cons x xs)
  let ?acc1 = "health_loop boto now time_time [x] acc"
  have one: "touches {x} (manager acc) (manager ?acc1)"
    unfolding health_loop_single by (rule get_client_status_touches)
  have "health_loop boto now time_time (x # xs) acc = health_loop boto now time_time xs ?acc1"
    using health_loop_append [of boto now time_time "[x]" xs acc] by simp
  then show ?case
    using touches_trans [OF one Cons.IH [of ?acc1]] by simp
qed

lemma health_check_manager:
  "snd (health_check boto now time_time st)
     = manager (health_loop boto now time_time services
         \<lparr>rows = [], enabled_services = [], healthy_services = 0, critical_services = 0,
          manager = st\<rparr>)"
  by (simp add: health_check_def Let_def)

lemma health_check_touches:
  "touches (set services) st (snd (health_check boto now time_time st))"
  using health_loop_touches [of services
      "\<lparr>rows = [], enabled_services = [], healthy_services = 0, critical_services = 0,
        manager = st\<rparr>" boto now time_time]
  by (simp add: health_check_manager)

lemma manager_step_respects:
  "cache_respects_config st \<Longrightarrow> cache_respects_config (manager_step boto time_time st c)"
proof (cases c)
  case (GetClientStatus name now)
  assume "cache_respects_config st"
  then show ?thesis
    using get_client_status_touches [of name st boto now time_time]
    by (simp add: GetClientStatus touches_def)
next
  case (HealthCheck now)
  assume "cache_respects_config st"
  then show ?thesis
    using health_check_touches [of st boto now time_time]
    by (simp add: HealthCheck touches_def)
next
  case (RefreshClients r)
  show ?thesis
    by (simp add: RefreshClients refresh_clients_def cache_respects_config_def)
next
  case (ForceRefreshClient name)
  assume "cache_respects_config st"
  then show ?thesis
    by (auto simp: ForceRefreshClient force_refresh_client_def cache_respects_config_def
          reset_circuit_breakers_def is_service_enabled_def Let_def split: if_splits)
next
  case (ResetCircuitBreakers name)
  assume "cache_respects_config st"
  then show ?thesis
    by (auto simp: ResetCircuitBreakers cache_respects_config_def
          reset_circuit_breakers_def is_service_enabled_def split: option.splits)
qed

lemma manager_run_respects:
  "cache_respects_config st \<Longrightarrow> cache_respects_config (manager_run boto time_time cs st)"
  unfolding manager_run_def
  by (induction cs arbitrary: st) (simp_all add: manager_step_respects)

lemma new_manager_respects: "cache_respects_config (new_manager config m ct rt)"
  by (simp add: cache_respects_config_def new_manager_def)

lemma manager_step_config:
  "aws_config (manager_step boto time_time st c) = aws_config st"
proof (cases c)
  case (GetClientStatus name now)
  then show ?thesis
    using get_client_status_touches [of name st boto now time_time] by (simp add: touches_def)
next
  case (HealthCheck now)
  then show ?thesis
    using health_check_touches [of st boto now time_time] by (simp add: touches_def)
next
  case (RefreshClients r)
  then show ?thesis by (simp add: refresh_clients_def)
next
  case (ForceRefreshClient name)
  then show ?thesis
    by (simp add: force_refresh_client_def reset_circuit_breakers_def Let_def)
next
  case (ResetCircuitBreakers name)
  then show ?thesis
    by (simp add: reset_circuit_breakers_def split: option.splits)
qed

lemma manager_run_config:
  "aws_config (manager_run boto time_time cs st) = aws_config st"
  unfolding manager_run_def
  by (induction cs arbitrary: st) (simp_all add: manager_step_config)

lemma disabled_cache_entry:
  "cache_respects_config st \<Longrightarrow> \<not> is_service_enabled st service_name \<Longrightarrow>
   clients st service_name = None \<or> clients st service_name = Some None"
proof -
  assume inv: "cache_respects_config st" and off: "\<not> is_service_enabled st service_name"
  show ?thesis
  proof (cases "clients st service_name")
    case None
    then show ?thesis by simp
  next
    case (Some entry)
    show ?thesis
    proof (cases entry)
      case None
      with Some show ?thesis by simp
    next
      case (Some client)
      with \<open>clients st service_name = Some entry\<close> inv have "is_service_enabled st service_name"
        unfolding cache_respects_config_def by blast
      with off show ?thesis by simp
    qed
  qed
qed

text \<open>
  Claim C8. In every state the manager reaches from \<^verbatim>\<open>__init__\<close> by its calls, each
  accessor of a service that the configuration does not enable returns \<open>None\<close> and
  leaves the breakers, the health monitor, the connection pool and the trace of pool and
  boto3 calls as they were; and \<^verbatim>\<open>_create_client_with_monitoring\<close> returns \<open>None\<close>
  with the whole manager unchanged.
\<close>

theorem disabled_service_is_untouched:
  "st = manager_run boto0 time_time0 cs (new_manager config m ct rt) \<Longrightarrow>
   \<not> is_service_enabled st service_name \<Longrightarrow>
   client_methods service_name = Some method \<Longrightarrow>
   method boto now time_time st = (out, st', lg) \<Longrightarrow>
     out = Inr (Some None)
     \<and> circuit_breakers st' = circuit_breakers st
     \<and> health_monitor st' = health_monitor st
     \<and> connection_pool st' = connection_pool st
     \<and> trace st' = trace st
     \<and> create_client_with_monitoring boto now service_name service_type st = (None, st)"
proof -
  assume st: "st = manager_run boto0 time_time0 cs (new_manager config m ct rt)"
    and disabled: "\<not> is_service_enabled st service_name"
    and getter: "client_methods service_name = Some method"
    and ran: "method boto now time_time st = (out, st', lg)"
  have "cache_respects_config st"
    unfolding st by (intro manager_run_respects new_manager_respects)
  then have entry: "clients st service_name = None \<or> clients st service_name = Some None"
    using disabled by (rule disabled_cache_entry)
  have create: "create_client_with_monitoring boto now service_name service_type st = (None, st)"
    for service_type
    using disabled by (rule create_client_disabled)
  from getter have
    "out = Inr (Some None) \<and> circuit_breakers st' = circuit_breakers st
     \<and> health_monitor st' = health_monitor st \<and> connection_pool st' = connection_pool st
     \<and> trace st' = trace st"
  proof (cases rule: client_methods_elim)
    case dynamodb
    then show ?thesis
      using ran entry disabled
      by (auto simp: get_dynamodb_resource_def accessor_once dynamodb_resource_def)
  next
    case (client delay service_type)
    then show ?thesis
      using ran entry create [of service_type]
      by (auto simp: accessor_once cached_client_def)
  qed
  then show ?thesis using create by simp
qed


theorem disabled_service_is_untouched_witness:
  "\<not> is_service_enabled
        (manager_run (failing_until 0) (\<lambda>k. 0) [HealthCheck 1000000]
           (new_manager [''bedrock'' \<mapsto> True] 50 10 30)) ''s3''
   \<and> fst (get_s3_client (failing_until 0) 2000000 (\<lambda>k. 0)
            (manager_run (failing_until 0) (\<lambda>k. 0) [HealthCheck 1000000]
               (new_manager [''bedrock'' \<mapsto> True] 50 10 30))) = Inr (Some None)
   \<and> circuit_breakers (fst (snd (get_s3_client (failing_until 0) 2000000 (\<lambda>k. 0)
            (manager_run (failing_until 0) (\<lambda>k. 0) [HealthCheck 1000000]
               (new_manager [''bedrock'' \<mapsto> True] 50 10 30)))))
       = circuit_breakers (manager_run (failing_until 0) (\<lambda>k. 0) [HealthCheck 1000000]
               (new_manager [''bedrock'' \<mapsto> True] 50 10 30))
   \<and> health_monitor (fst (snd (get_s3_client (failing_until 0) 2000000 (\<lambda>k. 0)
            (manager_run (failing_until 0) (\<lambda>k. 0) [HealthCheck 1000000]
               (new_manager [''bedrock'' \<mapsto> True] 50 10 30)))))
       = health_monitor (manager_run (failing_until 0) (\<lambda>k. 0) [HealthCheck 1000000]
               (new_manager [''bedrock'' \<mapsto> True] 50 10 30))
   \<and> connection_pool (fst (snd (get_s3_client (failing_until 0) 2000000 (\<lambda>k. 0)
            (manager_run (failing_until 0) (\<lambda>k. 0) [HealthCheck 1000000]
               (new_manager [''bedrock'' \<mapsto> True] 50 10 30)))))
       = connection_pool (manager_run (failing_until 0) (\<lambda>k. 0) [HealthCheck 1000000]
               (new_manager [''bedrock'' \<mapsto> True] 50 10 30))"
proof -
  let ?st = "manager_run (failing_until 0) (\<lambda>k. 0) [HealthCheck 1000000]
               (new_manager [''bedrock'' \<mapsto> True] 50 10 30)"
  let ?r = "get_s3_client (failing_until 0) 2000000 (\<lambda>k. 0) ?st"
  have off: "\<not> is_service_enabled ?st ''s3''"
    by (simp add: is_service_enabled_def manager_run_config new_manager_def)
  have getter: "client_methods ''s3'' = Some get_s3_client"
    by (rule client_methods_simps)
  have ran: "get_s3_client (failing_until 0) 2000000 (\<lambda>k. 0) ?st
               = (fst ?r, fst (snd ?r), snd (snd ?r))"
    by simp
  show ?thesis
    using disabled_service_is_untouched [OF refl off getter ran] off by simp
qed


lemma after_failed_get_eval:
  "after_failed_get =
     \<lparr>aws_config = all_enabled, region = ''ap-south-1'',
      connection_pool = new_pool 50 10 30,
      health_monitor =
        [''bedrock'' \<mapsto>
           \<lparr>success_count = 0, health_failure_count = 1, last_success = None,
            last_failure = Some 1000000, consecutive_failures = 1,
            last_error = Some ''EndpointConnectionError''\<rparr>],
      circuit_breakers =
        initial_circuit_breakers
          (''bedrock'' \<mapsto>
             (new_breaker 5 60)\<lparr>failure_count := 1, last_failure_time := Some 1000000\<rparr>),
      clients = [''bedrock'' \<mapsto> None],
      trace = [PoolAcquired, Construct ''bedrock-runtime'', PoolReleased]\<rparr>"
  unfolding after_failed_get_def
  by (simp add: manager_eval)

text \<open>
  The claim C3 as stated fails after a failed construction: the cache holds an entry for
  Bedrock, a \<open>None\<close>, though no construction has succeeded; and the next call returns
  that \<open>None\<close> without asking boto3, whose second attempt would have returned a handle.
\<close>

theorem cached_failure_counterexample:
  "clients fresh_manager ''bedrock'' = None
   \<and> fst (get_bedrock_client (failing_until 1) 1000000 no_clock fresh_manager) = Inr (Some None)
   \<and> clients after_failed_get ''bedrock'' = Some None
   \<and> constructions after_failed_get = 1
   \<and> failing_until 1 ''bedrock-runtime'' 1 = Inr 1
   \<and> get_bedrock_client (failing_until 1) 2000000 no_clock after_failed_get
       = (Inr (Some None), after_failed_get, \<lparr>calls = 1, raised = [], sleeps = []\<rparr>)"
proof -
  have "fst (get_bedrock_client (failing_until 1) 1000000 no_clock fresh_manager) = Inr (Some None)"
    by (simp add: manager_eval)
  moreover have "get_bedrock_client (failing_until 1) 2000000 no_clock after_failed_get
       = (Inr (Some None), after_failed_get, \<lparr>calls = 1, raised = [], sleeps = []\<rparr>)"
    by (simp add: get_bedrock_client_def accessor_once cached_client_def after_failed_get_eval)
  ultimately show ?thesis
    by (simp add: after_failed_get_eval constructions_def failing_until_def
          fresh_manager_def new_manager_def)
qed

lemma create_client_handle:
  "create_client_with_monitoring boto now service_name service_type st = (Some client, st')
   \<Longrightarrow> boto service_type (constructions st) = Inr client"
  by (auto simp: create_client_with_monitoring_def acquire_connection_def Let_def
        constructions_def split: if_splits sum.splits)

lemma manager_step_keeps_entries:
  assumes "\<And>r. c \<noteq> RefreshClients r" "\<And>n. c \<noteq> ForceRefreshClient n"
  shows "dom (clients st) \<subseteq> dom (clients (manager_step boto time_time st c))"
proof (cases c)
  case (GetClientStatus name now)
  then show ?thesis
    using get_client_status_touches [of name st boto now time_time] by (simp add: touches_def)
next
  case (HealthCheck now)
  then show ?thesis
    using health_check_touches [of st boto now time_time] by (simp add: touches_def)
next
  case (ResetCircuitBreakers name)
  then show ?thesis by (simp add: reset_circuit_breakers_clients)
qed (use assms in simp_all)

lemma cached_client_result:
  "(clients st service_name = Some entry
      \<longrightarrow> cached_client boto now service_name service_type st = (entry, st))
   \<and> (clients st service_name = None \<and> is_service_enabled st service_name
       \<and> \<not> breaker_open st service_name
       \<and> active_connections (connection_pool st) < max_connections (connection_pool st)
       \<and> boto service_type (constructions st) = Inr client
      \<longrightarrow> fst (cached_client boto now service_name service_type st) = Some client
          \<and> clients (snd (cached_client boto now service_name service_type st)) service_name
              = Some (Some client))
   \<and> (clients st service_name = None \<and> is_service_enabled st service_name
       \<and> \<not> breaker_open st service_name
       \<and> active_connections (connection_pool st) < max_connections (connection_pool st)
       \<and> boto service_type (constructions st) = Inl e
      \<longrightarrow> fst (cached_client boto now service_name service_type st) = None
          \<and> clients (snd (cached_client boto now service_name service_type st)) service_name
              = Some None)
   \<and> (clients st service_name = None
       \<and> clients (snd (cached_client boto now service_name service_type st)) service_name
           = Some (Some client)
      \<longrightarrow> boto service_type (constructions st) = Inr client)"
proof (intro conjI impI)
  show "cached_client boto now service_name service_type st = (entry, st)"
    if "clients st service_name = Some entry"
    using that by (simp add: cached_client_def)
  show "boto service_type (constructions st) = Inr client"
    if "clients st service_name = None
       \<and> clients (snd (cached_client boto now service_name service_type st)) service_name
           = Some (Some client)"
    using that create_client_handle [of boto now service_name service_type st client]
    by (auto simp: cached_client_def split: prod.splits)
qed (simp_all add: cached_client_def create_client_with_monitoring_def acquire_connection_def
       Let_def client_failure_def client_success_def release_def constructions_def)

lemma dynamodb_resource_result:
  "(clients st ''dynamodb'' = Some entry \<longrightarrow> dynamodb_resource boto now st = (entry, st))
   \<and> (clients st ''dynamodb'' = None \<and> is_service_enabled st ''dynamodb''
       \<and> \<not> breaker_open st ''dynamodb''
       \<and> active_connections (connection_pool st) < max_connections (connection_pool st)
       \<and> boto ''dynamodb'' (constructions st) = Inr client
      \<longrightarrow> fst (dynamodb_resource boto now st) = Some client
          \<and> clients (snd (dynamodb_resource boto now st)) ''dynamodb'' = Some (Some client))
   \<and> (clients st ''dynamodb'' = None \<and> is_service_enabled st ''dynamodb''
       \<and> \<not> breaker_open st ''dynamodb''
       \<and> active_connections (connection_pool st) < max_connections (connection_pool st)
       \<and> boto ''dynamodb'' (constructions st) = Inl e
      \<longrightarrow> fst (dynamodb_resource boto now st) = None
          \<and> clients (snd (dynamodb_resource boto now st)) ''dynamodb'' = Some None)
   \<and> (clients st ''dynamodb'' = None
       \<and> clients (snd (dynamodb_resource boto now st)) ''dynamodb'' = Some (Some client)
      \<longrightarrow> boto ''dynamodb'' (constructions st) = Inr client)"
proof (intro conjI impI)
  show "dynamodb_resource boto now st = (entry, st)" if "clients st ''dynamodb'' = Some entry"
    using that by (simp add: dynamodb_resource_def)
  show "boto ''dynamodb'' (constructions st) = Inr client"
    if "clients st ''dynamodb'' = None
       \<and> clients (snd (dynamodb_resource boto now st)) ''dynamodb'' = Some (Some client)"
    using that
    by (auto simp: dynamodb_resource_def acquire_connection_def Let_def constructions_def
          client_failure_def client_success_def release_def
          split: if_splits sum.splits)
qed (simp_all add: dynamodb_resource_def acquire_connection_def
       Let_def client_failure_def client_success_def release_def constructions_def)


text \<open>
  Claim C3, amended. For each of the thirteen accessors: with an entry in the cache it
  returns the entry and changes nothing, so after a failed construction the cached
  \<open>None\<close> is returned and boto3 is not asked again. With no entry, for an enabled service
  whose breaker is not open and a free pool slot, it stores what the construction attempt
  gave: when boto3 returns a handle, the accessor returns it and the cache holds it; when
  boto3 raises, the accessor returns \<open>None\<close> and the cache holds that \<open>None\<close>. A
  handle enters the cache only as the result of a successful construction. An accessor
  removes no entry, and no call of the manager other than \<^verbatim>\<open>refresh_clients\<close> and
  \<^verbatim>\<open>force_refresh_client\<close> does.
\<close>

theorem cache_holds_results:
  "client_methods service_name = Some getter \<Longrightarrow>
   getter boto now time_time st = (out, st', lg) \<Longrightarrow>
     (\<forall>entry. clients st service_name = Some entry \<longrightarrow> out = Inr (Some entry) \<and> st' = st)
     \<and> (\<forall>client. clients st service_name = None \<and> is_service_enabled st service_name
           \<and> \<not> breaker_open st service_name
           \<and> active_connections (connection_pool st) < max_connections (connection_pool st)
           \<and> (\<forall>service_type. boto service_type (constructions st) = Inr client)
          \<longrightarrow> out = Inr (Some (Some client)) \<and> clients st' service_name = Some (Some client))
     \<and> (\<forall>e. clients st service_name = None \<and> is_service_enabled st service_name
           \<and> \<not> breaker_open st service_name
           \<and> active_connections (connection_pool st) < max_connections (connection_pool st)
           \<and> (\<forall>service_type. boto service_type (constructions st) = Inl e)
          \<longrightarrow> out = Inr (Some None) \<and> clients st' service_name = Some None)
     \<and> (\<forall>client. clients st service_name = None \<and> clients st' service_name = Some (Some client)
          \<longrightarrow> (\<exists>service_type. boto service_type (constructions st) = Inr client))
     \<and> dom (clients st) \<subseteq> dom (clients st')
     \<and> ((\<forall>r. c \<noteq> RefreshClients r) \<and> (\<forall>n. c \<noteq> ForceRefreshClient n)
          \<longrightarrow> dom (clients st) \<subseteq> dom (clients (manager_step boto time_time st c)))"
proof -
  assume getter: "client_methods service_name = Some getter"
    and ran: "getter boto now time_time st = (out, st', lg)"
  have keep: "(\<forall>r. c \<noteq> RefreshClients r) \<and> (\<forall>n. c \<noteq> ForceRefreshClient n)
          \<longrightarrow> dom (clients st) \<subseteq> dom (clients (manager_step boto time_time st c))"
  proof
    assume other: "(\<forall>r. c \<noteq> RefreshClients r) \<and> (\<forall>n. c \<noteq> ForceRefreshClient n)"
    show "dom (clients st) \<subseteq> dom (clients (manager_step boto time_time st c))"
      by (rule manager_step_keeps_entries) (simp_all add: other)
  qed
  from getter show ?thesis
  proof (cases rule: client_methods_elim)
    case dynamodb
    have res: "out = Inr (Some (fst (dynamodb_resource boto now st)))"
      "st' = snd (dynamodb_resource boto now st)"
      using ran by (simp_all add: dynamodb(2) get_dynamodb_resource_def accessor_once)
    have "dom (clients st) \<subseteq> dom (clients st')"
      using dynamodb_resource_touches [of st boto now] by (simp add: res touches_def)
    then show ?thesis
      using keep dynamodb_resource_result [of st _ boto now]
      unfolding res dynamodb(1)
      by (intro conjI allI impI) (metis fst_conv snd_conv)+
  next
    case (client delay service_type)
    have res: "out = Inr (Some (fst (cached_client boto now service_name service_type st)))"
      "st' = snd (cached_client boto now service_name service_type st)"
      using ran by (simp_all add: client(2) accessor_once)
    have "dom (clients st) \<subseteq> dom (clients st')"
      using cached_client_touches [of service_name st boto now service_type]
      by (simp add: res touches_def)
    then show ?thesis
      using keep cached_client_result [of st service_name _ boto now service_type]
      unfolding res
      by (intro conjI allI impI) (metis fst_conv snd_conv)+
  qed
qed


theorem cache_holds_results_witness:
  "fst (get_bedrock_client (failing_until 0) 1000000 no_clock fresh_manager)
     = Inr (Some (Some 0))
   \<and> clients (fst (snd (get_bedrock_client (failing_until 0) 1000000 no_clock fresh_manager)))
       ''bedrock'' = Some (Some 0)
   \<and> fst (get_bedrock_client (failing_until 1) 1000000 no_clock fresh_manager)
       = Inr (Some None)
   \<and> clients after_failed_get ''bedrock'' = Some None
   \<and> fst (get_bedrock_client (failing_until 0) 2000000 no_clock after_failed_get)
       = Inr (Some None)
   \<and> fst (snd (get_bedrock_client (failing_until 0) 2000000 no_clock after_failed_get))
       = after_failed_get
   \<and> dom (clients after_failed_get)
       \<subseteq> dom (clients (manager_step (failing_until 0) no_clock after_failed_get
                         (HealthCheck 3000000)))"
proof -
  have getter: "client_methods ''bedrock'' = Some get_bedrock_client"
    by (simp add: client_methods_simps)
  have fresh: "clients fresh_manager ''bedrock'' = None"
    "is_service_enabled fresh_manager ''bedrock''"
    "\<not> breaker_open fresh_manager ''bedrock''"
    "active_connections (connection_pool fresh_manager)
       < max_connections (connection_pool fresh_manager)"
    "constructions fresh_manager = 0"
    by (simp_all add: fresh_manager_def new_manager_def all_enabled_def services_def
          is_service_enabled_def breaker_open_def initial_circuit_breakers_def new_breaker_def
          new_pool_def constructions_def)
  have succeeds: "\<forall>service_type. failing_until 0 service_type 0 = Inr 0"
    and fails: "\<forall>service_type. failing_until 1 service_type 0
                  = Inl (Exn ClientError ''EndpointConnectionError'')"
    by (simp_all add: failing_until_def)
  have cached: "clients after_failed_get ''bedrock'' = Some None"
    by (simp add: after_failed_get_eval)
  have first:
    "fst (get_bedrock_client (failing_until 0) 1000000 no_clock fresh_manager)
       = Inr (Some (Some 0))
     \<and> clients (fst (snd (get_bedrock_client (failing_until 0) 1000000 no_clock
                            fresh_manager))) ''bedrock'' = Some (Some 0)"
    using fresh succeeds
      cache_holds_results [OF getter, of "failing_until 0" 1000000 no_clock fresh_manager
        "fst (get_bedrock_client (failing_until 0) 1000000 no_clock fresh_manager)"
        "fst (snd (get_bedrock_client (failing_until 0) 1000000 no_clock fresh_manager))"
        "snd (snd (get_bedrock_client (failing_until 0) 1000000 no_clock fresh_manager))"
        "HealthCheck 3000000"]
    by simp
  have second:
    "fst (get_bedrock_client (failing_until 1) 1000000 no_clock fresh_manager)
       = Inr (Some None)"
    using fresh fails
      cache_holds_results [OF getter, of "failing_until 1" 1000000 no_clock fresh_manager
        "fst (get_bedrock_client (failing_until 1) 1000000 no_clock fresh_manager)"
        "fst (snd (get_bedrock_client (failing_until 1) 1000000 no_clock fresh_manager))"
        "snd (snd (get_bedrock_client (failing_until 1) 1000000 no_clock fresh_manager))"
        "HealthCheck 3000000"]
    by simp
  have third:
    "fst (get_bedrock_client (failing_until 0) 2000000 no_clock after_failed_get)
       = Inr (Some None)
     \<and> fst (snd (get_bedrock_client (failing_until 0) 2000000 no_clock after_failed_get))
       = after_failed_get
     \<and> dom (clients after_failed_get)
       \<subseteq> dom (clients (manager_step (failing_until 0) no_clock after_failed_get
                         (HealthCheck 3000000)))"
    using cached
      cache_holds_results [OF getter, of "failing_until 0" 2000000 no_clock after_failed_get
        "fst (get_bedrock_client (failing_until 0) 2000000 no_clock after_failed_get)"
        "fst (snd (get_bedrock_client (failing_until 0) 2000000 no_clock after_failed_get))"
        "snd (snd (get_bedrock_client (failing_until 0) 2000000 no_clock after_failed_get))"
        "HealthCheck 3000000"]
    by simp
  show ?thesis
    using first second third cached by simp
qed


subsection \<open>Health check\<close>















end
